theory Spec2Isabelle
  imports Complex_Main "HOL-Library.AList" "HOL-Library.Sublist" "HOL-Library.Multiset"
    "HOL-Library.Log_Nat"
begin

section \<open>The pipeline graph compiler (utils/pipelineToCode)\<close>

text \<open>
  A shallow embedding of the module that turns an ML pipeline graph into Python source:
  \<open>validatePipelineStructure\<close>, \<open>topologicalSort\<close>, \<open>getSimpleVarName\<close>, \<open>nodeToCode\<close>,
  \<open>generateImports\<close>, \<open>generatePythonCode\<close>, \<open>generateJupyterNotebook\<close> and
  \<open>generatePythonScript\<close>.

  Conventions of the embedding.
  \<^item> A JavaScript string is a \<open>string\<close>, the list of the bytes of its UTF-8 encoding. Text
    outside ASCII (the Korean error messages, the superscript two, the arrow and the chart
    emoji of the evaluation block) is written as these bytes. Where the source works on
    the UTF-16 code units of a string (\<open>replace\<close> with a regular expression), the embedding
    counts the code units of each encoded character.
  \<^item> A thrown \<open>PipelineValidationError\<close> is the left injection of a sum; every function that
    can throw returns \<open>error + 'a\<close>.
  \<^item> A JavaScript \<open>Map\<close> is an association list in insertion order: \<open>map_of\<close> is
    \<open>Map.get\<close> and \<open>AList.update\<close> is \<open>Map.set\<close> (an existing key keeps its place, a
    new key goes to the end), so that \<open>Map.forEach\<close> is a traversal of the list.
  \<^item> A control value (\<open>Record<string, any>\<close>) is a \<open>jsval\<close>: undefined, a number or a
    string. A number is a finite IEEE double, given by a rational: \<open>JNum r\<close> stands for
    the double nearest to \<open>r\<close> (\<open>double r\<close>, ties to even, as a numeric literal is read),
    and arithmetic rounds its exact result in the same way. NaN is \<open>None\<close> where a number
    is computed; infinities are not modelled, so \<open>\<bar>r\<bar>\<close> is taken below \<open>2^1024\<close>.
\<close>

subsection \<open>Data model\<close>

datatype jsval = JUndefined | JNum rat | JStr string

record NodeData =
  node_id :: string
  label :: string
  kind :: string
  controls :: "(string \<times> jsval) list"
  position :: "rat \<times> rat"

record ConnectionData =
  conn_id :: string
  source :: string
  target :: string
  sourceOutput :: string
  targetInput :: string

record GraphData =
  nodes :: "NodeData list"
  connections :: "ConnectionData list"

datatype error = PipelineValidationError string

text \<open>\<open>Array.prototype.join\<close> with a separator.\<close>

fun join :: "string \<Rightarrow> string list \<Rightarrow> string" where
  "join sep [] = []"
| "join sep [x] = x"
| "join sep (x # y # ys) = x @ sep @ join sep (y # ys)"

subsection \<open>Error messages\<close>

text \<open>The Korean parts of the messages, as UTF-8 bytes. In order: "in the pipeline ",
  " node is required.", "there are nodes that are not connected: ",
  " node needs a data input.", "a model node ", "and ", " are both required.",
  " there are no nodes.", "there are no nodes."\<close>

definition ko_in_pipeline :: string where
  "ko_in_pipeline = [CHR 0xED, CHR 0x8C, CHR 0x8C, CHR 0xEC, CHR 0x9D, CHR 0xB4, CHR 0xED, CHR 0x94,
     CHR 0x84, CHR 0xEB, CHR 0x9D, CHR 0xBC, CHR 0xEC, CHR 0x9D, CHR 0xB8, CHR 0xEC, CHR 0x97, CHR 0x90,
     CHR 0x20]"

definition ko_node_required :: string where
  "ko_node_required = [CHR 0x20, CHR 0xEB, CHR 0x85, CHR 0xB8, CHR 0xEB, CHR 0x93, CHR 0x9C, CHR 0xEA,
     CHR 0xB0, CHR 0x80, CHR 0x20, CHR 0xED, CHR 0x95, CHR 0x84, CHR 0xEC, CHR 0x9A, CHR 0x94, CHR 0xED,
     CHR 0x95, CHR 0xA9, CHR 0xEB, CHR 0x8B, CHR 0x88, CHR 0xEB, CHR 0x8B, CHR 0xA4, CHR 0x2E]"

definition ko_unconnected_nodes :: string where
  "ko_unconnected_nodes = [CHR 0xEC, CHR 0x97, CHR 0xB0, CHR 0xEA, CHR 0xB2, CHR 0xB0, CHR 0xEB,
     CHR 0x90, CHR 0x98, CHR 0xEC, CHR 0xA7, CHR 0x80, CHR 0x20, CHR 0xEC, CHR 0x95, CHR 0x8A, CHR 0xEC,
     CHR 0x9D, CHR 0x80, CHR 0x20, CHR 0xEB, CHR 0x85, CHR 0xB8, CHR 0xEB, CHR 0x93, CHR 0x9C, CHR 0xEA,
     CHR 0xB0, CHR 0x80, CHR 0x20, CHR 0xEC, CHR 0x9E, CHR 0x88, CHR 0xEC, CHR 0x8A, CHR 0xB5, CHR 0xEB,
     CHR 0x8B, CHR 0x88, CHR 0xEB, CHR 0x8B, CHR 0xA4, CHR 0x3A, CHR 0x20]"

definition ko_needs_data_input :: string where
  "ko_needs_data_input = [CHR 0x20, CHR 0xEB, CHR 0x85, CHR 0xB8, CHR 0xEB, CHR 0x93, CHR 0x9C, CHR 0xEB,
     CHR 0x8A, CHR 0x94, CHR 0x20, CHR 0xEB, CHR 0x8D, CHR 0xB0, CHR 0xEC, CHR 0x9D, CHR 0xB4, CHR 0xED,
     CHR 0x84, CHR 0xB0, CHR 0x20, CHR 0xEC, CHR 0x9E, CHR 0x85, CHR 0xEB, CHR 0xA0, CHR 0xA5, CHR 0xEC,
     CHR 0x9D, CHR 0xB4, CHR 0x20, CHR 0xED, CHR 0x95, CHR 0x84, CHR 0xEC, CHR 0x9A, CHR 0x94, CHR 0xED,
     CHR 0x95, CHR 0xA9, CHR 0xEB, CHR 0x8B, CHR 0x88, CHR 0xEB, CHR 0x8B, CHR 0xA4, CHR 0x2E]"

definition ko_model_node :: string where
  "ko_model_node = [CHR 0xEB, CHR 0xAA, CHR 0xA8, CHR 0xEB, CHR 0x8D, CHR 0xB8, CHR 0x20, CHR 0xEB,
     CHR 0x85, CHR 0xB8, CHR 0xEB, CHR 0x93, CHR 0x9C, CHR 0xEB, CHR 0x8A, CHR 0x94, CHR 0x20]"

definition ko_and :: string where
  "ko_and = [CHR 0xEA, CHR 0xB3, CHR 0xBC, CHR 0x20]"

definition ko_both_required :: string where
  "ko_both_required = [CHR 0xEC, CHR 0x9D, CHR 0xB4, CHR 0x20, CHR 0xEB, CHR 0xAA, CHR 0xA8, CHR 0xEB,
     CHR 0x91, CHR 0x90, CHR 0x20, CHR 0xED, CHR 0x95, CHR 0x84, CHR 0xEC, CHR 0x9A, CHR 0x94, CHR 0xED,
     CHR 0x95, CHR 0xA9, CHR 0xEB, CHR 0x8B, CHR 0x88, CHR 0xEB, CHR 0x8B, CHR 0xA4, CHR 0x2E]"

definition ko_no_nodes :: string where
  "ko_no_nodes = [CHR 0xEB, CHR 0x85, CHR 0xB8, CHR 0xEB, CHR 0x93, CHR 0x9C, CHR 0xEA, CHR 0xB0,
     CHR 0x80, CHR 0x20, CHR 0xEC, CHR 0x97, CHR 0x86, CHR 0xEC, CHR 0x8A, CHR 0xB5, CHR 0xEB, CHR 0x8B,
     CHR 0x88, CHR 0xEB, CHR 0x8B, CHR 0xA4, CHR 0x2E]"

definition msg_no_dataLoader :: string where
  "msg_no_dataLoader = ko_in_pipeline @ ''DataLoader'' @ ko_node_required"

definition msg_orphaned :: "string \<Rightarrow> string" where
  "msg_orphaned orphanLabels = ko_unconnected_nodes @ orphanLabels"

definition msg_dataSplit_input :: "string \<Rightarrow> string" where
  "msg_dataSplit_input lbl = lbl @ '': DataSplit'' @ ko_needs_data_input"

definition msg_model_inputs :: "string \<Rightarrow> string" where
  "msg_model_inputs lbl =
     lbl @ '': '' @ ko_model_node @ ''X_train'' @ ko_and @ ''y_train'' @ ko_both_required"

definition msg_no_nodes :: string where
  "msg_no_nodes = ko_in_pipeline @ ko_no_nodes"

definition msg_no_ml_nodes :: string where
  "msg_no_ml_nodes = ko_in_pipeline @ ''ML '' @ ko_no_nodes"

subsection \<open>validatePipelineStructure\<close>

definition hasDataLoader :: "NodeData list \<Rightarrow> bool" where
  "hasDataLoader ns = list_ex (\<lambda>n. kind n = ''dataLoader'') ns"

text \<open>The set built by the first \<open>forEach\<close>: every source and every target of a connection.\<close>

definition connectedNodes :: "ConnectionData list \<Rightarrow> string set" where
  "connectedNodes conns = set (concat (map (\<lambda>conn. [source conn, target conn]) conns))"

definition orphanedNodes :: "NodeData list \<Rightarrow> ConnectionData list \<Rightarrow> NodeData list" where
  "orphanedNodes ns conns =
     filter (\<lambda>n. kind n \<noteq> ''dataLoader'' \<and> node_id n \<notin> connectedNodes conns) ns"

text \<open>The body of the last \<open>forEach\<close> for one node: the violation it throws, if any.\<close>

definition requiredInputViolation :: "NodeData \<Rightarrow> ConnectionData list \<Rightarrow> error option" where
  "requiredInputViolation node conns =
     (let incoming = filter (\<lambda>c. target c = node_id node) conns in
      if kind node = ''dataSplit'' \<and> length incoming = 0
      then Some (PipelineValidationError (msg_dataSplit_input (label node)))
      else if kind node \<in> set [''classifier'', ''regressor'', ''neuralNet'']
      then (let hasXTrain = list_ex (\<lambda>c. targetInput c = ''X_train'') incoming;
                hasYTrain = list_ex (\<lambda>c. targetInput c = ''y_train'') incoming
            in if \<not> hasXTrain \<or> \<not> hasYTrain
               then Some (PipelineValidationError (msg_model_inputs (label node)))
               else None)
      else None)"

text \<open>The last \<open>forEach\<close>: the first node with a violation throws and ends the traversal.\<close>

fun checkRequiredInputs :: "NodeData list \<Rightarrow> ConnectionData list \<Rightarrow> error + unit" where
  "checkRequiredInputs [] conns = Inr ()"
| "checkRequiredInputs (node # rest) conns =
     (case requiredInputViolation node conns of
        Some e \<Rightarrow> Inl e
      | None \<Rightarrow> checkRequiredInputs rest conns)"

definition validatePipelineStructure :: "NodeData list \<Rightarrow> ConnectionData list \<Rightarrow> error + unit" where
  "validatePipelineStructure ns conns =
     (if \<not> hasDataLoader ns then Inl (PipelineValidationError msg_no_dataLoader)
      else if length (orphanedNodes ns conns) > 0
      then Inl (PipelineValidationError
                 (msg_orphaned (join '', '' (map label (orphanedNodes ns conns)))))
      else checkRequiredInputs ns conns)"

subsection \<open>topologicalSort\<close>

text \<open>\<open>inDegree.get(k) || 0\<close>: a missing key reads as 0.\<close>

definition degreeOf :: "(string \<times> int) list \<Rightarrow> string \<Rightarrow> int" where
  "degreeOf inDegree k = (case map_of inDegree k of None \<Rightarrow> 0 | Some d \<Rightarrow> d)"

text \<open>Initialisation: every node id gets an empty adjacency list and in-degree 0.\<close>

definition initGraph :: "NodeData list \<Rightarrow> (string \<times> string list) list" where
  "initGraph ns = fold (\<lambda>node g. AList.update (node_id node) [] g) ns []"

definition initInDegree :: "NodeData list \<Rightarrow> (string \<times> int) list" where
  "initInDegree ns = fold (\<lambda>node d. AList.update (node_id node) 0 d) ns []"

text \<open>One connection: \<open>graph.get(conn.source)?.push(conn.target)\<close> does nothing when the
  source is not a key, while the in-degree of the target is incremented in every case.\<close>

definition addConnection ::
  "ConnectionData \<Rightarrow> (string \<times> string list) list \<times> (string \<times> int) list
     \<Rightarrow> (string \<times> string list) list \<times> (string \<times> int) list" where
  "addConnection conn gd =
     (case gd of (g, d) \<Rightarrow>
        ((case map_of g (source conn) of
            None \<Rightarrow> g
          | Some ts \<Rightarrow> AList.update (source conn) (ts @ [target conn]) g),
         AList.update (target conn) (degreeOf d (target conn) + 1) d))"

definition buildGraph ::
  "NodeData list \<Rightarrow> ConnectionData list
     \<Rightarrow> (string \<times> string list) list \<times> (string \<times> int) list" where
  "buildGraph ns conns = fold addConnection conns (initGraph ns, initInDegree ns)"

text \<open>The queue is seeded by \<open>inDegree.forEach\<close>, that is in the insertion order of the keys.\<close>

definition initialQueue :: "(string \<times> int) list \<Rightarrow> string list" where
  "initialQueue inDegree = map fst (filter (\<lambda>p. snd p = 0) inDegree)"

text \<open>\<open>new Map(nodes.map(n => [n.id, n]))\<close>: a later node with the same id replaces the
  earlier one.\<close>

definition nodeMapOf :: "NodeData list \<Rightarrow> (string \<times> NodeData) list" where
  "nodeMapOf ns = fold (\<lambda>n m. AList.update (node_id n) n m) ns []"

text \<open>The inner \<open>forEach\<close> over the neighbours of the dequeued node, one neighbour at a time,
  on the pair of the in-degree map and the queue.\<close>

definition relax ::
  "string \<Rightarrow> (string \<times> int) list \<times> string list \<Rightarrow> (string \<times> int) list \<times> string list" where
  "relax neighbor dq =
     (case dq of (inDegree, queue) \<Rightarrow>
        (let degree = degreeOf inDegree neighbor - 1
         in (AList.update neighbor degree inDegree,
             if degree = 0 then queue @ [neighbor] else queue)))"

text \<open>One iteration of the \<open>while\<close> loop on the state (queue, inDegree, sorted); the array
  \<open>sorted\<close> is \<open>sortedN\<close> here.\<close>

definition kahnStep ::
  "(string \<times> string list) list \<Rightarrow> (string \<times> NodeData) list
     \<Rightarrow> string list \<times> (string \<times> int) list \<times> NodeData list
     \<Rightarrow> string list \<times> (string \<times> int) list \<times> NodeData list" where
  "kahnStep graph nodeMap st =
     (case st of (queue, inDegree, sortedN) \<Rightarrow>
        (let nodeId = hd queue;
             rest = tl queue;
             sortedN' = (case map_of nodeMap nodeId of
                          Some node \<Rightarrow> sortedN @ [node]
                        | None \<Rightarrow> sortedN);
             dq = (case map_of graph nodeId of
                     Some neighbors \<Rightarrow> fold relax neighbors (inDegree, rest)
                   | None \<Rightarrow> (inDegree, rest))
         in (snd dq, fst dq, sortedN')))"

text \<open>The number of keys whose stored in-degree is positive. A neighbour is enqueued only
  when its in-degree goes from 1 to 0, so the length of the queue plus this number never
  grows inside an iteration, and the dequeue makes it smaller: the loop terminates on every
  state, cyclic graphs included.\<close>

definition positiveDegrees :: "(string \<times> int) list \<Rightarrow> nat" where
  "positiveDegrees inDegree = length (filter (\<lambda>p. 0 < snd p) inDegree)"

lemma positiveDegrees_update:
  "positiveDegrees (AList.update k v d) + (if 0 < degreeOf d k then 1 else 0)
     = positiveDegrees d + (if 0 < v then 1 else 0)"
proof (induction d)
  case Nil
  then show ?case by (simp add: positiveDegrees_def degreeOf_def)
next
  case (Cons p d)
  then show ?case
    by (cases p) (auto simp: positiveDegrees_def degreeOf_def)
qed

lemma relax_measure:
  "length (snd (relax n (d, q))) + positiveDegrees (fst (relax n (d, q)))
     = length q + positiveDegrees d"
proof (cases "degreeOf d n = 1")
  case True
  with positiveDegrees_update [of n 0 d] show ?thesis
    by (simp add: relax_def)
next
  case False
  with positiveDegrees_update [of n "degreeOf d n - 1" d] show ?thesis
    by (auto simp: relax_def Let_def split: if_splits)
qed

lemma fold_relax_measure:
  "length (snd (fold relax ns dq)) + positiveDegrees (fst (fold relax ns dq))
     = length (snd dq) + positiveDegrees (fst dq)"
proof (induction ns arbitrary: dq)
  case Nil
  then show ?case by simp
next
  case (Cons n ns)
  show ?case using Cons.IH [of "relax n dq"] relax_measure [of n "fst dq" "snd dq"] by simp
qed

function kahnLoop ::
  "(string \<times> string list) list \<Rightarrow> (string \<times> NodeData) list
     \<Rightarrow> string list \<times> (string \<times> int) list \<times> NodeData list \<Rightarrow> NodeData list" where
  "kahnLoop graph nodeMap (queue, inDegree, sortedN) =
     (if queue = [] then sortedN
      else kahnLoop graph nodeMap (kahnStep graph nodeMap (queue, inDegree, sortedN)))"
  by pat_completeness auto
termination
proof (relation "measure (\<lambda>(graph, nodeMap, queue, inDegree, sortedN).
                   length queue + positiveDegrees inDegree)")
  show "wf (measure (\<lambda>(graph, nodeMap, queue, inDegree, sortedN).
                   length queue + positiveDegrees inDegree))"
    by simp
next
  fix graph :: "(string \<times> string list) list"
    and nodeMap :: "(string \<times> NodeData) list"
    and queue :: "string list"
    and inDegree :: "(string \<times> int) list"
    and sortedN :: "NodeData list"
  assume ne: "queue \<noteq> []"
  have len: "length (tl queue) < length queue" using ne by (cases queue) auto
  show "((graph, nodeMap, kahnStep graph nodeMap (queue, inDegree, sortedN)),
         (graph, nodeMap, queue, inDegree, sortedN))
        \<in> measure (\<lambda>(graph, nodeMap, queue, inDegree, sortedN).
                   length queue + positiveDegrees inDegree)"
  proof (cases "map_of graph (hd queue)")
    case None
    then show ?thesis using len by (simp add: kahnStep_def Let_def)
  next
    case (Some neighbors)
    then show ?thesis
      using len fold_relax_measure [of neighbors "(inDegree, tl queue)"]
      by (simp add: kahnStep_def Let_def)
  qed
qed

definition topologicalSort :: "NodeData list \<Rightarrow> ConnectionData list \<Rightarrow> NodeData list" where
  "topologicalSort ns conns =
     (let gd = buildGraph ns conns
      in kahnLoop (fst gd) (nodeMapOf ns) (initialQueue (snd gd), snd gd, []))"

declare kahnLoop.simps [simp del]

subsection \<open>Strings and JavaScript values\<close>

definition nl :: string where
  "nl = [CHR 0x0A]"

definition sq :: string where
  "sq = [CHR 0x27]"

definition bs :: string where
  "bs = [CHR 0x5C]"

text \<open>The superscript two, the chart emoji and the right arrow of the evaluation block.\<close>

definition sup2 :: string where
  "sup2 = [CHR 0xC2, CHR 0xB2]"

definition chart_emoji :: string where
  "chart_emoji = [CHR 0xF0, CHR 0x9F, CHR 0x93, CHR 0x8A]"

definition arrow :: string where
  "arrow = [CHR 0xE2, CHR 0x86, CHR 0x92]"

text \<open>A template literal that spans several lines is the join of its lines by a newline.\<close>

definition unlines :: "string list \<Rightarrow> string" where
  "unlines ls = join nl ls"

text \<open>Decimal digits of a natural number, as \<open>String(n)\<close> prints an integer.\<close>

fun showNat :: "nat \<Rightarrow> string" where
  "showNat n = (if n < 10 then [''0123456789'' ! n]
                else showNat (n div 10) @ [''0123456789'' ! (n mod 10)])"

declare showNat.simps [simp del]

text \<open>What the compiler takes from the JavaScript runtime and the browser:
  \<^item> \<open>getItem\<close>: \<open>localStorage.getItem\<close>, or \<open>None\<close> where \<open>window\<close> is undefined;
  \<^item> \<open>base64\<close>: the Base64 text of the UTF-8 bytes of a string (\<open>btoa\<close> or \<open>Buffer\<close>);
  \<^item> \<open>numberToString\<close>: \<open>Number.prototype.toString\<close>;
  \<^item> \<open>stringToNumber\<close>: the conversion of a string to a number, \<open>None\<close> for NaN;
  \<^item> \<open>localeNow\<close>: \<open>new Date().toLocaleString('ko-KR')\<close> at the time of the call;
  \<^item> \<open>stringify\<close>: \<open>JSON.stringify(value, null, 2)\<close> on the values of type \<open>json\<close>.\<close>

datatype json =
  JSONnull
| JSONnumber int
| JSONstring string
| JSONarray "json list"
| JSONobject "(string \<times> json) list"

record env =
  getItem :: "(string \<Rightarrow> string option) option"
  base64 :: "string \<Rightarrow> string"
  numberToString :: "rat \<Rightarrow> string"
  stringToNumber :: "string \<Rightarrow> rat option"
  localeNow :: string
  stringify :: "json \<Rightarrow> string"

subsection \<open>Numbers\<close>

text \<open>\<open>pow2 k\<close> is \<open>2^k\<close> for an integer \<open>k\<close>; \<open>floorLog2 x\<close> is the integer part of the
  binary logarithm of a positive \<open>x\<close>, found from the bit lengths of its numerator and
  denominator; \<open>roundHalfEven\<close> rounds to the nearest integer, a tie to the even one.\<close>

definition pow2 :: "int \<Rightarrow> rat" where
  "pow2 k = (if 0 \<le> k then 2 ^ nat k else 1 / 2 ^ nat (- k))"

definition floorLog2 :: "rat \<Rightarrow> int" where
  "floorLog2 x =
     (case quotient_of x of (p, q) \<Rightarrow>
        (let d = bitlen p - bitlen q in if pow2 d \<le> x then d else d - 1))"

definition roundHalfEven :: "rat \<Rightarrow> int" where
  "roundHalfEven y =
     (let f = \<lfloor>y\<rfloor>; d = y - of_int f
      in if d < 1 / 2 then f else if 1 / 2 < d then f + 1 else if even f then f else f + 1)"

text \<open>The double nearest to a rational: a significand of 53 bits, and the fixed spacing
  \<open>2^-1074\<close> of the subnormal numbers below \<open>2^-1022\<close>.\<close>

definition double :: "rat \<Rightarrow> rat" where
  "double x =
     (if x = 0 then 0
      else (let ex = max (floorLog2 \<bar>x\<bar> - 52) (- 1074);
                m = roundHalfEven (\<bar>x\<bar> / pow2 ex)
            in sgn x * of_int m * pow2 ex))"

text \<open>\<open>node.controls?.key\<close>: undefined when the key (or the whole object) is absent.\<close>

definition control :: "NodeData \<Rightarrow> string \<Rightarrow> jsval" where
  "control node key = (case map_of (controls node) key of None \<Rightarrow> JUndefined | Some v \<Rightarrow> v)"

fun truthy :: "jsval \<Rightarrow> bool" where
  "truthy JUndefined = False"
| "truthy (JNum r) = (double r \<noteq> 0)"
| "truthy (JStr s) = (s \<noteq> [])"

text \<open>\<open>a || b\<close>\<close>

definition orElse :: "jsval \<Rightarrow> jsval \<Rightarrow> jsval" where
  "orElse a b = (if truthy a then a else b)"

text \<open>The string a value becomes inside a template literal.\<close>

fun toStr :: "env \<Rightarrow> jsval \<Rightarrow> string" where
  "toStr e JUndefined = ''undefined''"
| "toStr e (JNum r) = numberToString e (double r)"
| "toStr e (JStr s) = s"

text \<open>The number a value becomes as an operand of \<open>-\<close>; \<open>None\<close> is NaN.\<close>

fun toNumber :: "env \<Rightarrow> jsval \<Rightarrow> rat option" where
  "toNumber e JUndefined = None"
| "toNumber e (JNum r) = Some (double r)"
| "toNumber e (JStr s) = stringToNumber e s"

text \<open>\<open>x.toFixed(2)\<close> on the exact value of the double \<open>x\<close>: the sign, then the integer
  nearest to \<open>100 * |x|\<close> (the larger one on a tie) with a point before its last two
  digits; from \<open>10^21\<close> on it is \<open>String(x)\<close>.\<close>

definition toFixed2 :: "env \<Rightarrow> rat option \<Rightarrow> string" where
  "toFixed2 e x =
     (case x of
        None \<Rightarrow> ''NaN''
      | Some r \<Rightarrow>
          if 10 ^ 21 \<le> \<bar>r\<bar> then numberToString e r
          else (let n = nat \<lfloor>\<bar>r\<bar> * 100 + 1 / 2\<rfloor>
                in (if r < 0 then ''-'' else []) @ showNat (n div 100) @ ''.''
                   @ showNat (n mod 100 div 10) @ showNat (n mod 10)))"

text \<open>\<open>s.replace(/[^a-zA-Z0-9]/g, '_')\<close>: one underscore for every UTF-16 code unit that
  is not an ASCII letter or digit. On the UTF-8 bytes of the string: an ASCII byte is one
  code unit; the first byte of a sequence of two or three bytes stands for a character of
  one code unit, the first byte of a sequence of four bytes for a character of two (a
  surrogate pair); the continuation bytes add none.\<close>

definition isAlnum :: "char \<Rightarrow> bool" where
  "isAlnum c = (let n = (of_char c :: nat)
                in (97 \<le> n \<and> n \<le> 122) \<or> (65 \<le> n \<and> n \<le> 90) \<or> (48 \<le> n \<and> n \<le> 57))"

definition sanitize :: "string \<Rightarrow> string" where
  "sanitize s =
     concat (map (\<lambda>c. if isAlnum c then [c]
                      else if (of_char c :: nat) < 128 then ''_''
                      else if (of_char c :: nat) < 192 then []
                      else if (of_char c :: nat) < 240 then ''_''
                      else ''__'') s)"

subsection \<open>getSimpleVarName\<close>

definition kindMap :: "(string \<times> string) list" where
  "kindMap =
     [(''dataLoader'', ''data''),
      (''dataSplit'', ''split''),
      (''scaler'', ''scaler''),
      (''featureSelection'', ''feature''),
      (''classifier'', ''model''),
      (''regressor'', ''model''),
      (''neuralNet'', ''nn''),
      (''evaluation'', ''eval''),
      (''tuning'', ''tuner'')]"

text \<open>Returns the name and the updated counter map \<open>nodeIndex\<close> (which the source mutates).
  The counter is kept per kind, the base name is looked up per kind, with \<open>'step'\<close> for a
  kind that is not a key of \<open>kindMap\<close>.\<close>

definition getSimpleVarName ::
  "NodeData \<Rightarrow> (string \<times> nat) list \<Rightarrow> string \<times> (string \<times> nat) list" where
  "getSimpleVarName node nodeIndex =
     (let baseName = (case map_of kindMap (kind node) of Some b \<Rightarrow> b | None \<Rightarrow> ''step'');
          index = (case map_of nodeIndex (kind node) of Some i \<Rightarrow> i | None \<Rightarrow> 0)
      in (if index = 0 then baseName else baseName @ showNat (index + 1),
          AList.update (kind node) (index + 1) nodeIndex))"

text \<open>The \<open>forEach\<close> of \<open>generatePythonCode\<close> that fills \<open>varNameMap\<close>, on the pair
  (varNameMap, nodeIndex).\<close>

definition assignVarName ::
  "NodeData \<Rightarrow> (string \<times> string) list \<times> (string \<times> nat) list
     \<Rightarrow> (string \<times> string) list \<times> (string \<times> nat) list" where
  "assignVarName node st =
     (case st of (varNameMap, nodeIndex) \<Rightarrow>
        (case getSimpleVarName node nodeIndex of (varName, nodeIndex') \<Rightarrow>
           (AList.update (node_id node) varName varNameMap, nodeIndex')))"

definition assignVarNames :: "NodeData list \<Rightarrow> (string \<times> string) list" where
  "assignVarNames sortedNodes = fst (fold assignVarName sortedNodes ([], []))"

subsection \<open>nodeToCode\<close>

definition findConn :: "ConnectionData list \<Rightarrow> string \<Rightarrow> string \<Rightarrow> ConnectionData option" where
  "findConn conns targetNodeId inputKey =
     find (\<lambda>c. target c = targetNodeId \<and> targetInput c = inputKey) conns"

text \<open>\<open>varNameMap?.get(conn.source) || `step_${...}`\<close>: the fallback is taken when the map
  is not passed, the key is absent or the stored name is empty.\<close>

definition sourceVarNameOf :: "(string \<times> string) list option \<Rightarrow> ConnectionData \<Rightarrow> string" where
  "sourceVarNameOf varNameMap conn =
     (case (case varNameMap of None \<Rightarrow> None | Some m \<Rightarrow> map_of m (source conn)) of
        Some v \<Rightarrow> if v \<noteq> [] then v else ''step_'' @ sanitize (source conn)
      | None \<Rightarrow> ''step_'' @ sanitize (source conn))"

definition getSourceVarName ::
  "ConnectionData list \<Rightarrow> (string \<times> string) list option \<Rightarrow> string \<Rightarrow> string \<Rightarrow> string" where
  "getSourceVarName conns varNameMap targetNodeId inputKey =
     (case findConn conns targetNodeId inputKey of
        None \<Rightarrow> ''data''
      | Some conn \<Rightarrow> sourceVarNameOf varNameMap conn)"

definition getSourceOutputVar ::
  "ConnectionData list \<Rightarrow> (string \<times> string) list option \<Rightarrow> string \<Rightarrow> string \<Rightarrow> string" where
  "getSourceOutputVar conns varNameMap targetNodeId inputKey =
     (case findConn conns targetNodeId inputKey of
        None \<Rightarrow> ''data''
      | Some conn \<Rightarrow> sourceVarNameOf varNameMap conn @ ''_'' @ sourceOutput conn)"

text \<open>\<open>`step_${conn.source.replace(...)}_${conn.sourceOutput}`\<close>, the name the blocks of
  the later cases give to an output of the source of a connection.\<close>

definition stepVar :: "ConnectionData \<Rightarrow> string" where
  "stepVar conn = ''step_'' @ sanitize (source conn) @ ''_'' @ sourceOutput conn"

definition nodeToCode_dataLoader :: "env \<Rightarrow> NodeData \<Rightarrow> string \<Rightarrow> string" where
  \<open>nodeToCode_dataLoader e node varName =
     (let fileName = toStr e (orElse (control node ''fileName'') (JStr ''data.csv''));
          storedData = (case getItem e of
                          None \<Rightarrow> None
                        | Some lookup \<Rightarrow> lookup (''csv_data_'' @ fileName))
      in case storedData of
           Some content \<Rightarrow>
             if content \<noteq> [] then
               (let base64Content = base64 e content in
                unlines
                 [''# Load Data from uploaded CSV: '' @ fileName,
                  ''import io'',
                  ''import base64'',
                  '''',
                  ''# Embedded CSV data (uploaded from browser)'',
                  ''csv_content = base64.b64decode('' @ sq @ base64Content @ sq @ '').decode('utf-8')'',
                  varName @ '' = pd.read_csv(io.StringIO(csv_content))'',
                  ''print(f"Data loaded from '' @ fileName @ '': {'' @ varName @ ''.shape}")'',
                  ''print("'' @ bs @ ''nFirst 5 rows:")'',
                  ''print('' @ varName @ ''.head())''])
             else
               unlines
                [''# Load Data from file'',
                 varName @ '' = pd.read_csv('' @ sq @ fileName @ sq @ '')'',
                 ''print(f"Data loaded: {'' @ varName @ ''.shape}")'',
                 ''print("'' @ bs @ ''nFirst 5 rows:")'',
                 ''print('' @ varName @ ''.head())'']
         | None \<Rightarrow>
               unlines
                [''# Load Data from file'',
                 varName @ '' = pd.read_csv('' @ sq @ fileName @ sq @ '')'',
                 ''print(f"Data loaded: {'' @ varName @ ''.shape}")'',
                 ''print("'' @ bs @ ''nFirst 5 rows:")'',
                 ''print('' @ varName @ ''.head())''])\<close>

text \<open>\<open>node.controls?.ratio || 0.8\<close> and \<open>(1 - ratio).toFixed(2)\<close> of the dataSplit case;
  the difference is the double nearest to the exact one.\<close>

definition dataSplitRatio :: "NodeData \<Rightarrow> jsval" where
  "dataSplitRatio node = orElse (control node ''ratio'') (JNum (8 / 10))"

definition dataSplitTestSize :: "env \<Rightarrow> NodeData \<Rightarrow> string" where
  "dataSplitTestSize e node =
     toFixed2 e (map_option (\<lambda>r. double (1 - r)) (toNumber e (dataSplitRatio node)))"

definition nodeToCode_dataSplit ::
  "env \<Rightarrow> NodeData \<Rightarrow> ConnectionData list \<Rightarrow> string \<Rightarrow> (string \<times> string) list option \<Rightarrow> string"
  where
  \<open>nodeToCode_dataSplit e node conns varName varNameMap =
     (let targetColumn = toStr e (orElse (control node ''targetColumn'') (JStr ''target''));
          sourceVar = getSourceVarName conns varNameMap (node_id node) ''data'';
          testSize = dataSplitTestSize e node
      in unlines
          [''# Train/Test Split'',
           ''# Target column: '' @ sq @ targetColumn @ sq,
           ''X_all = '' @ sourceVar @ ''.drop('' @ sq @ targetColumn @ sq @ '', axis=1)'',
           ''y_all = '' @ sourceVar @ ''['' @ sq @ targetColumn @ sq @ '']'',
           varName @ ''_X_train, '' @ varName @ ''_X_test, '' @ varName @ ''_y_train, '' @ varName @ ''_y_test = train_test_split('',
           ''    X_all, y_all, test_size='' @ testSize @ '', random_state=42'',
           '')'',
           ''print(f"Train size: {{len('' @ varName @ ''_X_train)}}, Test size: {{len('' @ varName @ ''_X_test)}}")'',
           ''print(f"Target column: '' @ sq @ targetColumn @ sq @ ''")''])\<close>

definition nodeToCode_scaler ::
  "env \<Rightarrow> NodeData \<Rightarrow> ConnectionData list \<Rightarrow> string \<Rightarrow> (string \<times> string) list option \<Rightarrow> string"
  where
  \<open>nodeToCode_scaler e node conns varName varNameMap =
     (let method = orElse (control node ''method'') (JStr ''StandardScaler'');
          xTrainVar = getSourceOutputVar conns varNameMap (node_id node) ''X_train'';
          xTestConn = findConn conns (node_id node) ''X_test''
      in case xTestConn of
           Some c \<Rightarrow>
             (let xTestVar = getSourceOutputVar conns varNameMap (node_id node) ''X_test'' in
              unlines
               [''# Scale Features (Train and Test)'',
                varName @ '' = '' @ toStr e method @ ''()'',
                varName @ ''_X_train = '' @ varName @ ''.fit_transform('' @ xTrainVar @ '')'',
                varName @ ''_X_test = '' @ varName @ ''.transform('' @ xTestVar @ '')'',
                ''print("Features scaled using '' @ toStr e method @ ''")'',
                ''print(f"Scaled train shape: {'' @ varName @ ''_X_train.shape}")'',
                ''print(f"Scaled test shape: {'' @ varName @ ''_X_test.shape}")''])
         | None \<Rightarrow>
              unlines
               [''# Scale Features (Train only)'',
                varName @ '' = '' @ toStr e method @ ''()'',
                varName @ ''_X_train = '' @ varName @ ''.fit_transform('' @ xTrainVar @ '')'',
                ''print("Features scaled using '' @ toStr e method @ ''")'',
                ''print(f"Scaled train shape: {'' @ varName @ ''_X_train.shape}")'',
                ''# Note: X_test not connected - only training data scaled''])\<close>

text \<open>The notice of the cases that need both training inputs; \<open>what\<close> is the end of its
  last line, the only part that differs between these cases.\<close>

definition missingTrainingInputs :: "bool \<Rightarrow> bool \<Rightarrow> string \<Rightarrow> string" where
  \<open>missingTrainingInputs hasXTrain hasYTrain what =
     ''# WARNING: Missing required connections!'' @ nl
     @ (if \<not> hasXTrain then ''#   - X_train input not connected'' @ nl else [])
     @ (if \<not> hasYTrain then ''#   - y_train input not connected'' @ nl else [])
     @ ''# Please connect training data to this '' @ what\<close>

definition nodeToCode_featureSelection ::
  "env \<Rightarrow> NodeData \<Rightarrow> ConnectionData list \<Rightarrow> string \<Rightarrow> string" where
  \<open>nodeToCode_featureSelection e node conns varName =
     (let method = orElse (control node ''method'') (JStr ''SelectKBest'');
          k = orElse (control node ''k'') (JNum 10)
      in case (findConn conns (node_id node) ''X_train'', findConn conns (node_id node) ''y_train'') of
           (Some xTrainConn, Some yTrainConn) \<Rightarrow>
             (let xTrainVar = stepVar xTrainConn;
                  yTrainVar = stepVar yTrainConn;
                  nodeId = sanitize (node_id node)
              in unlines
                  [''# Feature Selection'',
                   varName @ '' = '' @ toStr e method @ ''(k='' @ toStr e k @ '')'',
                   ''step_'' @ nodeId @ ''_X_train = '' @ varName @ ''.fit_transform('' @ xTrainVar @ '', '' @ yTrainVar @ '')'',
                   ''print(f"Selected {k} best features from {'' @ xTrainVar @ ''.shape[1]} features")''])
         | (xTrainConn, yTrainConn) \<Rightarrow>
             missingTrainingInputs (xTrainConn \<noteq> None) (yTrainConn \<noteq> None)
               ''feature selection node'')\<close>

definition classifierModelCode :: "env \<Rightarrow> jsval \<Rightarrow> jsval \<Rightarrow> string" where
  \<open>classifierModelCode e algorithm nEstimators =
     (if algorithm = JStr ''RandomForest'' then ''RandomForestClassifier(n_estimators='' @ toStr e nEstimators @ '', random_state=42)''
      else if algorithm = JStr ''LogisticRegression'' then ''LogisticRegression(random_state=42, max_iter=1000)''
      else if algorithm = JStr ''SVM'' then ''SVC(random_state=42)''
      else if algorithm = JStr ''DecisionTree'' then ''DecisionTreeClassifier(random_state=42)''
      else if algorithm = JStr ''KNN'' then ''KNeighborsClassifier(n_neighbors=5)''
      else if algorithm = JStr ''GradientBoosting'' then ''GradientBoostingClassifier(n_estimators='' @ toStr e nEstimators @ '', random_state=42)''
      else ''RandomForestClassifier(n_estimators='' @ toStr e nEstimators @ '', random_state=42)'')\<close>

definition nodeToCode_classifier ::
  "env \<Rightarrow> NodeData \<Rightarrow> ConnectionData list \<Rightarrow> string" where
  \<open>nodeToCode_classifier e node conns =
     (let algorithm = orElse (control node ''algorithm'') (JStr ''RandomForest'');
          nEstimators = orElse (control node ''n_estimators'') (JNum 100)
      in case (findConn conns (node_id node) ''X_train'', findConn conns (node_id node) ''y_train'') of
           (Some xTrainConn, Some yTrainConn) \<Rightarrow>
             (let xTrainVar = stepVar xTrainConn;
                  yTrainVar = stepVar yTrainConn;
                  nodeId = sanitize (node_id node);
                  modelCode = classifierModelCode e algorithm nEstimators
              in unlines
                  [''# Train Classifier'',
                   ''step_'' @ nodeId @ ''_model = '' @ modelCode,
                   ''step_'' @ nodeId @ ''_model.fit('' @ xTrainVar @ '', '' @ yTrainVar @ '')'',
                   ''print("Model trained: '' @ toStr e algorithm @ ''")'',
                   ''print(f"Training score: {step_'' @ nodeId @ ''_model.score('' @ xTrainVar @ '', '' @ yTrainVar @ ''):.4f}")''])
         | (xTrainConn, yTrainConn) \<Rightarrow>
             missingTrainingInputs (xTrainConn \<noteq> None) (yTrainConn \<noteq> None)
               ''classifier node'')\<close>

definition regressorModelCode :: "jsval \<Rightarrow> string" where
  \<open>regressorModelCode algorithm =
     (if algorithm = JStr ''LinearRegression'' then ''LinearRegression()''
      else if algorithm = JStr ''Ridge'' then ''Ridge(random_state=42)''
      else if algorithm = JStr ''Lasso'' then ''Lasso(random_state=42)''
      else if algorithm = JStr ''RandomForestRegressor'' then ''RandomForestRegressor(random_state=42)''
      else if algorithm = JStr ''SVR'' then ''SVR()''
      else if algorithm = JStr ''GradientBoostingRegressor'' then ''GradientBoostingRegressor(random_state=42)''
      else ''LinearRegression()'')\<close>

definition nodeToCode_regressor ::
  "env \<Rightarrow> NodeData \<Rightarrow> ConnectionData list \<Rightarrow> string" where
  \<open>nodeToCode_regressor e node conns =
     (let algorithm = orElse (control node ''algorithm'') (JStr ''LinearRegression'')
      in case (findConn conns (node_id node) ''X_train'', findConn conns (node_id node) ''y_train'') of
           (Some xTrainConn, Some yTrainConn) \<Rightarrow>
             (let xTrainVar = stepVar xTrainConn;
                  yTrainVar = stepVar yTrainConn;
                  nodeId = sanitize (node_id node);
                  modelCode = regressorModelCode algorithm
              in unlines
                  [''# Train Regressor'',
                   ''step_'' @ nodeId @ ''_model = '' @ modelCode,
                   ''step_'' @ nodeId @ ''_model.fit('' @ xTrainVar @ '', '' @ yTrainVar @ '')'',
                   ''print("Model trained: '' @ toStr e algorithm @ ''")'',
                   ''print(f"Training R'' @ sup2 @ '' score: {step_'' @ nodeId @ ''_model.score('' @ xTrainVar @ '', '' @ yTrainVar @ ''):.4f}")''])
         | (xTrainConn, yTrainConn) \<Rightarrow>
             missingTrainingInputs (xTrainConn \<noteq> None) (yTrainConn \<noteq> None)
               ''regressor node'')\<close>

definition nodeToCode_neuralNet ::
  "env \<Rightarrow> NodeData \<Rightarrow> ConnectionData list \<Rightarrow> string" where
  \<open>nodeToCode_neuralNet e node conns =
     (let layers = orElse (control node ''layers'') (JStr ''64,32'');
          epochs = orElse (control node ''epochs'') (JNum 50)
      in case (findConn conns (node_id node) ''X_train'', findConn conns (node_id node) ''y_train'') of
           (Some xTrainConn, Some yTrainConn) \<Rightarrow>
             (let xTrainVar = stepVar xTrainConn;
                  yTrainVar = stepVar yTrainConn;
                  nodeId = sanitize (node_id node)
              in unlines
                  [''# Train Neural Network'',
                   ''step_'' @ nodeId @ ''_model = MLPClassifier(hidden_layer_sizes=('' @ toStr e layers @ ''), max_iter='' @ toStr e epochs @ '', random_state=42)'',
                   ''step_'' @ nodeId @ ''_model.fit('' @ xTrainVar @ '', '' @ yTrainVar @ '')'',
                   ''print("Neural Network trained with layers: ['' @ toStr e layers @ '']")'',
                   ''print(f"Training score: {step_'' @ nodeId @ ''_model.score('' @ xTrainVar @ '', '' @ yTrainVar @ ''):.4f}")''])
         | (xTrainConn, yTrainConn) \<Rightarrow>
             missingTrainingInputs (xTrainConn \<noteq> None) (yTrainConn \<noteq> None)
               ''neural network node'')\<close>

text \<open>The four evaluation blocks.\<close>

definition evalRegressionFromPrediction :: "string \<Rightarrow> string \<Rightarrow> string \<Rightarrow> string" where
  \<open>evalRegressionFromPrediction nodeId yTestVar predVar =
     unlines
      [''# Evaluate Regression Model (using pre-computed predictions)'',
       ''step_'' @ nodeId @ ''_metrics = {'',
       ''    'mae': mean_absolute_error('' @ yTestVar @ '', '' @ predVar @ ''),'',
       ''    'mse': mean_squared_error('' @ yTestVar @ '', '' @ predVar @ ''),'',
       ''    'rmse': np.sqrt(mean_squared_error('' @ yTestVar @ '', '' @ predVar @ '')),'',
       ''    'r2': r2_score('' @ yTestVar @ '', '' @ predVar @ '')'',
       ''}'',
       ''print("="*60)'',
       ''print("'' @ chart_emoji @ '' Regression Model Evaluation Results")'',
       ''print("="*60)'',
       ''print(f"R'' @ sup2 @ '' Score (Coefficient of Determination): {step_'' @ nodeId @ ''_metrics['r2']:.4f}")'',
       ''print(f"  '' @ arrow @ '' Explains {step_'' @ nodeId @ ''_metrics['r2']*100:.2f}% of variance")'',
       ''print(f"Mean Absolute Error (MAE): {step_'' @ nodeId @ ''_metrics['mae']:.4f}")'',
       ''print(f"Mean Squared Error (MSE): {step_'' @ nodeId @ ''_metrics['mse']:.4f}")'',
       ''print(f"Root Mean Squared Error (RMSE): {step_'' @ nodeId @ ''_metrics['rmse']:.4f}")'',
       ''print("="*60)'']\<close>

definition evalClassificationFromPrediction :: "string \<Rightarrow> string \<Rightarrow> string \<Rightarrow> string" where
  \<open>evalClassificationFromPrediction nodeId yTestVar predVar =
     unlines
      [''# Evaluate Classification Model (using pre-computed predictions)'',
       ''step_'' @ nodeId @ ''_metrics = {'',
       ''    'accuracy': accuracy_score('' @ yTestVar @ '', '' @ predVar @ '')'',
       ''}'',
       ''print(f"Accuracy: {step_'' @ nodeId @ ''_metrics['accuracy']:.4f}")'',
       ''print("'' @ bs @ ''nClassification Report:")'',
       ''print(classification_report('' @ yTestVar @ '', '' @ predVar @ ''))'',
       ''print("'' @ bs @ ''nConfusion Matrix:")'',
       ''print(confusion_matrix('' @ yTestVar @ '', '' @ predVar @ ''))'']\<close>

definition evalRegressionFromModel :: "string \<Rightarrow> string \<Rightarrow> string \<Rightarrow> string \<Rightarrow> string" where
  \<open>evalRegressionFromModel nodeId yTestVar modelVar xTestVar =
     unlines
      [''# Evaluate Regression Model'',
       ''y_pred = '' @ modelVar @ ''.predict('' @ xTestVar @ '')'',
       ''step_'' @ nodeId @ ''_metrics = {'',
       ''    'mae': mean_absolute_error('' @ yTestVar @ '', y_pred),'',
       ''    'mse': mean_squared_error('' @ yTestVar @ '', y_pred),'',
       ''    'rmse': np.sqrt(mean_squared_error('' @ yTestVar @ '', y_pred)),'',
       ''    'r2': r2_score('' @ yTestVar @ '', y_pred)'',
       ''}'',
       ''print("="*60)'',
       ''print("'' @ chart_emoji @ '' Regression Model Evaluation Results")'',
       ''print("="*60)'',
       ''print(f"R'' @ sup2 @ '' Score (Coefficient of Determination): {step_'' @ nodeId @ ''_metrics['r2']:.4f}")'',
       ''print(f"  '' @ arrow @ '' Explains {step_'' @ nodeId @ ''_metrics['r2']*100:.2f}% of variance")'',
       ''print(f"Mean Absolute Error (MAE): {step_'' @ nodeId @ ''_metrics['mae']:.4f}")'',
       ''print(f"Mean Squared Error (MSE): {step_'' @ nodeId @ ''_metrics['mse']:.4f}")'',
       ''print(f"Root Mean Squared Error (RMSE): {step_'' @ nodeId @ ''_metrics['rmse']:.4f}")'',
       ''print("="*60)'']\<close>

definition evalClassificationFromModel :: "string \<Rightarrow> string \<Rightarrow> string \<Rightarrow> string \<Rightarrow> string" where
  \<open>evalClassificationFromModel nodeId yTestVar modelVar xTestVar =
     unlines
      [''# Evaluate Classification Model'',
       ''y_pred = '' @ modelVar @ ''.predict('' @ xTestVar @ '')'',
       ''step_'' @ nodeId @ ''_metrics = {'',
       ''    'accuracy': accuracy_score('' @ yTestVar @ '', y_pred)'',
       ''}'',
       ''print(f"Accuracy: {step_'' @ nodeId @ ''_metrics['accuracy']:.4f}")'',
       ''print("'' @ bs @ ''nClassification Report:")'',
       ''print(classification_report('' @ yTestVar @ '', y_pred))'',
       ''print("'' @ bs @ ''nConfusion Matrix:")'',
       ''print(confusion_matrix('' @ yTestVar @ '', y_pred))'']\<close>

definition evaluateNeedsInputs :: string where
  \<open>evaluateNeedsInputs =
     unlines
      [''# WARNING: Evaluate node needs either:'',
       ''#   Option 1: prediction input + y_test input'',
       ''#   Option 2: model input + X_test input + y_test input'',
       ''# Please connect the required inputs'']\<close>

definition evaluateNeedsYTest :: string where
  \<open>evaluateNeedsYTest =
     unlines
      [''# WARNING: y_test input is required for evaluation'',
       ''# Please connect y_test data to this evaluate node'']\<close>

text \<open>\<open>isRegression\<close>: true only when the \<open>model\<close> input is connected and the node at
  its source, looked up in \<open>nodeMap\<close>, has kind \<open>regressor\<close>.\<close>

definition isRegression ::
  "ConnectionData option \<Rightarrow> (string \<times> NodeData) list \<Rightarrow> bool" where
  "isRegression modelConn nodeMap =
     (case modelConn of
        None \<Rightarrow> False
      | Some mc \<Rightarrow>
          (case map_of nodeMap (source mc) of
             None \<Rightarrow> False
           | Some modelSourceNode \<Rightarrow> kind modelSourceNode = ''regressor''))"

text \<open>In the branch without a prediction the source reads \<open>modelConn!\<close> and
  \<open>xTestConn!\<close>; both are present there, since \<open>hasModel\<close> holds, so the last case
  of the inner \<open>case\<close> is never taken.\<close>

definition nodeToCode_evaluate ::
  "NodeData \<Rightarrow> ConnectionData list \<Rightarrow> (string \<times> NodeData) list \<Rightarrow> string" where
  "nodeToCode_evaluate node conns nodeMap =
     (let modelConn = findConn conns (node_id node) ''model'';
          xTestConn = findConn conns (node_id node) ''X_test'';
          yTestConn = findConn conns (node_id node) ''y_test'';
          predictionConn = findConn conns (node_id node) ''prediction'';
          hasPrediction = (predictionConn \<noteq> None);
          hasModel = (modelConn \<noteq> None \<and> xTestConn \<noteq> None)
      in if \<not> hasPrediction \<and> \<not> hasModel then evaluateNeedsInputs
         else case yTestConn of
           None \<Rightarrow> evaluateNeedsYTest
         | Some yc \<Rightarrow>
             (let yTestVar = stepVar yc;
                  nodeId = sanitize (node_id node)
              in case predictionConn of
                   Some pc \<Rightarrow>
                     (let predVar = stepVar pc
                      in if isRegression modelConn nodeMap
                         then evalRegressionFromPrediction nodeId yTestVar predVar
                         else evalClassificationFromPrediction nodeId yTestVar predVar)
                 | None \<Rightarrow>
                     (case (modelConn, xTestConn) of
                        (Some mc, Some xc) \<Rightarrow>
                          (let modelVar = ''step_'' @ sanitize (source mc) @ ''_model'';
                               xTestVar = stepVar xc
                           in if isRegression modelConn nodeMap
                              then evalRegressionFromModel nodeId yTestVar modelVar xTestVar
                              else evalClassificationFromModel nodeId yTestVar modelVar xTestVar)
                      | _ \<Rightarrow> evaluateNeedsInputs)))"

definition nodeToCode_predict :: "NodeData \<Rightarrow> ConnectionData list \<Rightarrow> string" where
  \<open>nodeToCode_predict node conns =
     (case (findConn conns (node_id node) ''model'', findConn conns (node_id node) ''X_test'') of
        (Some modelConn, Some xTestConn) \<Rightarrow>
          (let modelVar = ''step_'' @ sanitize (source modelConn) @ ''_model'';
               xTestVar = stepVar xTestConn;
               nodeId = sanitize (node_id node)
           in unlines
               [''# Make Predictions'',
                ''step_'' @ nodeId @ ''_prediction = '' @ modelVar @ ''.predict('' @ xTestVar @ '')'',
                ''print(f"Predictions made: {len(step_'' @ nodeId @ ''_prediction)} samples")'',
                ''print(f"First 10 predictions: {step_'' @ nodeId @ ''_prediction[:10]}")'',
                '''',
                ''# ========================================'',
                ''# Interactive Prediction Example'',
                ''# ========================================'',
                ''# You can use the trained model to make predictions on new data:'',
                ''# Example:'',
                ''#   new_data = [[value1, value2, ...]]  # Replace with actual feature values'',
                ''#   prediction = '' @ modelVar @ ''.predict(new_data)'',
                ''#   print(f"Prediction: {prediction[0]}")'',
                ''#'',
                ''# For single-feature models (e.g., score prediction):'',
                ''#   input_value = 75  # Example: midterm score'',
                ''#   prediction = '' @ modelVar @ ''.predict([[input_value]])'',
                ''#   print(f"Predicted output: {prediction[0]:.2f}")''])
      | (modelConn, xTestConn) \<Rightarrow>
          ''# WARNING: Missing required connections!'' @ nl
          @ (if modelConn = None then ''#   - model input not connected'' @ nl else [])
          @ (if xTestConn = None then ''#   - X_test input not connected'' @ nl else [])
          @ ''# Please connect model and X_test data to this predict node'')\<close>

definition nodeToCode_hyperparamTune :: "NodeData \<Rightarrow> ConnectionData list \<Rightarrow> string" where
  \<open>nodeToCode_hyperparamTune node conns =
     (case (findConn conns (node_id node) ''X_train'', findConn conns (node_id node) ''y_train'') of
        (Some xTrainConn, Some yTrainConn) \<Rightarrow>
          (let xTrainVar = stepVar xTrainConn;
               yTrainVar = stepVar yTrainConn;
               nodeId = sanitize (node_id node)
           in unlines
               [''# Hyperparameter Tuning'',
                ''param_grid = {'',
                ''    'n_estimators': [50, 100, 200],'',
                ''    'max_depth': [10, 20, 30]'',
                ''}'',
                ''grid_search = GridSearchCV(RandomForestClassifier(random_state=42), param_grid, cv=5)'',
                ''grid_search.fit('' @ xTrainVar @ '', '' @ yTrainVar @ '')'',
                ''step_'' @ nodeId @ ''_model = grid_search.best_estimator_'',
                ''print(f"Best parameters: {grid_search.best_params_}")'',
                ''print(f"Best score: {grid_search.best_score_:.4f}")''])
      | (xTrainConn, yTrainConn) \<Rightarrow>
          missingTrainingInputs (xTrainConn \<noteq> None) (yTrainConn \<noteq> None)
            ''hyperparameter tuning node'')\<close>

definition nodeToCode ::
  "env \<Rightarrow> NodeData \<Rightarrow> ConnectionData list \<Rightarrow> (string \<times> NodeData) list \<Rightarrow> string
     \<Rightarrow> (string \<times> string) list option \<Rightarrow> string" where
  "nodeToCode e node conns nodeMap varName varNameMap =
     (if kind node = ''dataLoader'' then nodeToCode_dataLoader e node varName
      else if kind node = ''dataSplit'' then nodeToCode_dataSplit e node conns varName varNameMap
      else if kind node = ''scaler'' then nodeToCode_scaler e node conns varName varNameMap
      else if kind node = ''featureSelection'' then nodeToCode_featureSelection e node conns varName
      else if kind node = ''classifier'' then nodeToCode_classifier e node conns
      else if kind node = ''regressor'' then nodeToCode_regressor e node conns
      else if kind node = ''neuralNet'' then nodeToCode_neuralNet e node conns
      else if kind node = ''evaluate'' then nodeToCode_evaluate node conns nodeMap
      else if kind node = ''predict'' then nodeToCode_predict node conns
      else if kind node = ''hyperparamTune'' then nodeToCode_hyperparamTune node conns
      else ''# Unknown node type: '' @ kind node)"

subsection \<open>generateImports\<close>

text \<open>\<open>imports.add(s)\<close> on a \<open>Set\<close> kept in insertion order.\<close>

definition addImport :: "string \<Rightarrow> string list \<Rightarrow> string list" where
  "addImport s imports = (if s \<in> set imports then imports else imports @ [s])"

definition importsOfKind :: "string \<Rightarrow> string list" where
  "importsOfKind k =
     (if k = ''dataSplit'' then [''from sklearn.model_selection import train_test_split'']
      else if k = ''scaler''
      then [''from sklearn.preprocessing import StandardScaler, MinMaxScaler, RobustScaler, MaxAbsScaler'']
      else if k = ''featureSelection''
      then [''from sklearn.feature_selection import SelectKBest, f_classif'']
      else if k = ''classifier''
      then [''from sklearn.ensemble import RandomForestClassifier, GradientBoostingClassifier'',
            ''from sklearn.linear_model import LogisticRegression'',
            ''from sklearn.svm import SVC'',
            ''from sklearn.tree import DecisionTreeClassifier'',
            ''from sklearn.neighbors import KNeighborsClassifier'']
      else if k = ''regressor''
      then [''from sklearn.linear_model import LinearRegression, Ridge, Lasso'',
            ''from sklearn.ensemble import RandomForestRegressor, GradientBoostingRegressor'',
            ''from sklearn.svm import SVR'']
      else if k = ''neuralNet'' then [''from sklearn.neural_network import MLPClassifier'']
      else if k = ''evaluate''
      then [''from sklearn.metrics import accuracy_score, classification_report, confusion_matrix'',
            ''from sklearn.metrics import mean_absolute_error, mean_squared_error, r2_score'']
      else if k = ''hyperparamTune'' then [''from sklearn.model_selection import GridSearchCV'']
      else [])"

definition generateImports :: "NodeData list \<Rightarrow> string" where
  "generateImports ns =
     (let imports0 = addImport ''import numpy as np'' (addImport ''import pandas as pd'' []);
          imports1 = (if hasDataLoader ns
                      then addImport ''import base64'' (addImport ''import io'' imports0)
                      else imports0);
          imports2 = fold (\<lambda>node imports. fold addImport (importsOfKind (kind node)) imports)
                       ns imports1
      in join nl imports2)"

subsection \<open>generatePythonCode\<close>

definition mlKinds :: "string list" where
  "mlKinds = [''dataLoader'', ''dataSplit'', ''scaler'', ''featureSelection'',
              ''classifier'', ''regressor'', ''neuralNet'', ''evaluate'',
              ''predict'', ''hyperparamTune'']"

definition mlNodesOf :: "GraphData \<Rightarrow> NodeData list" where
  "mlNodesOf graph = filter (\<lambda>n. kind n \<in> set mlKinds) (nodes graph)"

text \<open>\<open>varNameMap.get(node.id) || 'data'\<close>\<close>

definition varNameFor :: "(string \<times> string) list \<Rightarrow> NodeData \<Rightarrow> string" where
  "varNameFor varNameMap node =
     (case map_of varNameMap (node_id node) of
        Some v \<Rightarrow> if v \<noteq> [] then v else ''data''
      | None \<Rightarrow> ''data'')"

definition codeBlocksOf ::
  "env \<Rightarrow> NodeData list \<Rightarrow> ConnectionData list \<Rightarrow> NodeData list \<Rightarrow> string list" where
  "codeBlocksOf e mlNodes conns sortedNodes =
     (let nodeMap = nodeMapOf mlNodes;
          varNameMap = assignVarNames sortedNodes
      in map (\<lambda>node. nodeToCode e node conns nodeMap (varNameFor varNameMap node) (Some varNameMap))
             sortedNodes)"

definition assembleCode :: "string \<Rightarrow> string list \<Rightarrow> string" where
  \<open>assembleCode imports codeBlocks =
   unlines
     [imports,
      '''',
      ''# ========================================'',
      ''# ML Pipeline Auto-Generated Code'',
      ''# ========================================'',
      '''',
      join (nl @ nl) codeBlocks,
      '''',
      ''# ========================================'',
      ''# Pipeline Complete!'',
      ''# ========================================'',
      '''']\<close>

text \<open>The stages after the validation: scheduling, naming, imports, blocks, assembly.\<close>

definition compileValidated :: "env \<Rightarrow> NodeData list \<Rightarrow> ConnectionData list \<Rightarrow> string" where
  "compileValidated e mlNodes conns =
     (let sortedNodes = topologicalSort mlNodes conns;
          imports = generateImports mlNodes;
          codeBlocks = codeBlocksOf e mlNodes conns sortedNodes
      in assembleCode imports codeBlocks)"

definition generatePythonCode :: "env \<Rightarrow> GraphData \<Rightarrow> error + string" where
  "generatePythonCode e graph =
     (if length (nodes graph) = 0 then Inl (PipelineValidationError msg_no_nodes)
      else (let mlNodes = mlNodesOf graph
            in if length mlNodes = 0 then Inl (PipelineValidationError msg_no_ml_nodes)
               else (case validatePipelineStructure mlNodes (connections graph) of
                       Inl err \<Rightarrow> Inl err
                     | Inr ok \<Rightarrow> Inr (compileValidated e mlNodes (connections graph)))))"

subsection \<open>Exporters\<close>

text \<open>\<open>s.split('\n')\<close>\<close>

fun splitLines :: "string \<Rightarrow> string list" where
  "splitLines [] = [[]]"
| "splitLines (c # cs) =
     (if c = CHR 0x0A then [] # splitLines cs
      else (case splitLines cs of
              l # ls \<Rightarrow> (c # l) # ls
            | [] \<Rightarrow> [[c]]))"

text \<open>\<open>s.split('\n\n')\<close>: the separators are found from the left and do not overlap.\<close>

fun splitSections :: "string \<Rightarrow> string list" where
  "splitSections [] = [[]]"
| "splitSections [c] = [[c]]"
| "splitSections (c # d # cs) =
     (if c = CHR 0x0A \<and> d = CHR 0x0A then [] # splitSections cs
      else (case splitSections (d # cs) of
              l # ls \<Rightarrow> (c # l) # ls
            | [] \<Rightarrow> [[c]]))"

definition markdownCell :: "env \<Rightarrow> string \<Rightarrow> json" where
  "markdownCell e pipelineName =
     JSONobject
       [(''cell_type'', JSONstring ''markdown''),
        (''metadata'', JSONobject []),
        (''source'', JSONarray
           [JSONstring (''# '' @ pipelineName @ nl),
            JSONstring nl,
            JSONstring (''This notebook was auto-generated from a visual ML pipeline builder.'' @ nl),
            JSONstring nl,
            JSONstring (''Generated on: '' @ localeNow e @ nl)])]"

definition codeCell :: "string \<Rightarrow> json" where
  "codeCell section =
     JSONobject
       [(''cell_type'', JSONstring ''code''),
        (''execution_count'', JSONnull),
        (''metadata'', JSONobject []),
        (''outputs'', JSONarray []),
        (''source'', JSONarray (map (\<lambda>line. JSONstring (line @ nl)) (splitLines section)))]"

definition notebookOf :: "env \<Rightarrow> string \<Rightarrow> string \<Rightarrow> json" where
  "notebookOf e pipelineName pythonCode =
     JSONobject
       [(''cells'', JSONarray (markdownCell e pipelineName # map codeCell (splitSections pythonCode))),
        (''metadata'', JSONobject
           [(''kernelspec'', JSONobject
               [(''display_name'', JSONstring ''Python 3''),
                (''language'', JSONstring ''python''),
                (''name'', JSONstring ''python3'')]),
            (''language_info'', JSONobject
               [(''name'', JSONstring ''python''),
                (''version'', JSONstring ''3.8.0'')])]),
        (''nbformat'', JSONnumber 4),
        (''nbformat_minor'', JSONnumber 4)]"

definition generateJupyterNotebook :: "env \<Rightarrow> GraphData \<Rightarrow> string \<Rightarrow> error + string" where
  "generateJupyterNotebook e graph pipelineName =
     (case generatePythonCode e graph of
        Inl err \<Rightarrow> Inl err
      | Inr pythonCode \<Rightarrow> Inr (stringify e (notebookOf e pipelineName pythonCode)))"

definition scriptHeader :: "env \<Rightarrow> string \<Rightarrow> string" where
  \<open>scriptHeader e pipelineName =
     unlines
       [''"""'',
        pipelineName,
        '''',
        ''Auto-generated ML Pipeline Script'',
        ''Generated on: '' @ localeNow e,
        '''',
        ''This script was created from a visual ML pipeline builder.'',
        ''"""'',
        '''',
        '''']\<close>

definition generatePythonScript :: "env \<Rightarrow> GraphData \<Rightarrow> string \<Rightarrow> error + string" where
  "generatePythonScript e graph pipelineName =
     (case generatePythonCode e graph of
        Inl err \<Rightarrow> Inl err
      | Inr pythonCode \<Rightarrow> Inr (scriptHeader e pipelineName @ pythonCode))"

section \<open>Vocabulary of the specification\<close>

text \<open>The edge relation of a graph, the in-degree of a node id, and "x comes before y" in
  a list (y occurs after the first occurrence of x).\<close>

definition edgesOf :: "ConnectionData list \<Rightarrow> (string \<times> string) set" where
  "edgesOf conns = set (map (\<lambda>c. (source c, target c)) conns)"

definition inDegreeOf :: "ConnectionData list \<Rightarrow> string \<Rightarrow> nat" where
  "inDegreeOf conns v = length (filter (\<lambda>c. target c = v) conns)"

fun precedes :: "'a \<Rightarrow> 'a \<Rightarrow> 'a list \<Rightarrow> bool" where
  "precedes x y [] = False"
| "precedes x y (z # zs) = (if z = x then y \<in> set zs else precedes x y zs)"

definition wellFormed :: "NodeData list \<Rightarrow> ConnectionData list \<Rightarrow> bool" where
  "wellFormed ns conns =
     (distinct (map node_id ns)
      \<and> (\<forall>c \<in> set conns. source c \<in> set (map node_id ns) \<and> target c \<in> set (map node_id ns)))"

text \<open>The connections into \<open>v\<close> whose source is not yet among the scheduled ids \<open>P\<close>,
  and the invariant of the loop of \<open>topologicalSort\<close> on the state (queue, inDegree,
  sorted).\<close>

definition remaining :: "ConnectionData list \<Rightarrow> string list \<Rightarrow> string \<Rightarrow> nat" where
  "remaining conns P v = length (filter (\<lambda>c. target c = v \<and> source c \<notin> set P) conns)"

definition kahnInv ::
  "NodeData list \<Rightarrow> ConnectionData list
     \<Rightarrow> string list \<times> (string \<times> int) list \<times> NodeData list \<Rightarrow> bool" where
  "kahnInv ns conns st =
     (case st of (Q, D, S) \<Rightarrow>
        distinct (map node_id S @ Q)
        \<and> set (map node_id S @ Q) \<subseteq> set (map node_id ns)
        \<and> set S \<subseteq> set ns
        \<and> (\<forall>v. degreeOf D v = int (remaining conns (map node_id S) v))
        \<and> (\<forall>v \<in> set (map node_id ns).
              v \<in> set (map node_id S @ Q) \<longleftrightarrow> remaining conns (map node_id S) v = 0)
        \<and> (\<forall>c \<in> set conns. target c \<in> set (map node_id S)
              \<longrightarrow> precedes (source c) (target c) (map node_id S)))"

text \<open>A comment line of the generated Python, and a block made of comment lines only: the
  shape of an unmet-dependency notice.\<close>

definition isCommentLine :: "string \<Rightarrow> bool" where
  "isCommentLine l = (case l of [] \<Rightarrow> False | c # cs \<Rightarrow> c = CHR ''#'')"

definition isNotice :: "string \<Rightarrow> bool" where
  "isNotice block = list_all isCommentLine (splitLines block)"

text \<open>The lines of a block that are statements, not comments.\<close>

definition statementLines :: "string \<Rightarrow> string list" where
  "statementLines block = filter (\<lambda>l. \<not> isCommentLine l) (splitLines block)"



section \<open>Example graphs\<close>

definition exNode :: "string \<Rightarrow> string \<Rightarrow> (string \<times> jsval) list \<Rightarrow> NodeData" where
  "exNode i k cs = \<lparr>node_id = i, label = i, kind = k, controls = cs, position = (0, 0)\<rparr>"

definition exConn :: "string \<Rightarrow> string \<Rightarrow> string \<Rightarrow> string \<Rightarrow> ConnectionData" where
  "exConn s out t inp =
     \<lparr>conn_id = s @ ''.'' @ out @ ''-'' @ t @ ''.'' @ inp, source = s, target = t,
      sourceOutput = out, targetInput = inp\<rparr>"

text \<open>A runtime without \<open>window\<close>; numbers print as the digits of their integer part.\<close>

definition exEnv :: env where
  "exEnv = \<lparr>getItem = None, base64 = (\<lambda>s. s), numberToString = (\<lambda>r. showNat (nat \<lfloor>r\<rfloor>)),
            stringToNumber = (\<lambda>s. None), localeNow = ''2025. 1. 1.'', stringify = (\<lambda>j. [])\<rparr>"

text \<open>A loader, a split and two trainers, a classifier and a regressor, both fully
  connected.\<close>

definition trainersGraph :: GraphData where
  "trainersGraph =
     \<lparr>nodes = [exNode ''L'' ''dataLoader'' [], exNode ''S'' ''dataSplit'' [],
               exNode ''C'' ''classifier'' [], exNode ''R'' ''regressor'' []],
      connections = [exConn ''L'' ''data'' ''S'' ''data'',
                     exConn ''S'' ''X_train'' ''C'' ''X_train'',
                     exConn ''S'' ''y_train'' ''C'' ''y_train'',
                     exConn ''S'' ''X_train'' ''R'' ''X_train'',
                     exConn ''S'' ''y_train'' ''R'' ''y_train'']\<rparr>"

text \<open>The chain A \<open>\<rightarrow>\<close> B \<open>\<rightarrow>\<close> C with its nodes inserted in the order C, A, B.\<close>

definition chainNodes :: "NodeData list" where
  "chainNodes = [exNode ''C'' ''scaler'' [], exNode ''A'' ''dataLoader'' [],
                 exNode ''B'' ''dataSplit'' []]"

definition chainConns :: "ConnectionData list" where
  "chainConns = [exConn ''A'' ''data'' ''B'' ''data'', exConn ''B'' ''X_train'' ''C'' ''X_train'']"

text \<open>A scaler that feeds a predict node and has no incoming connection.\<close>

definition outgoingOnlyNodes :: "NodeData list" where
  "outgoingOnlyNodes = [exNode ''L'' ''dataLoader'' [], exNode ''S'' ''scaler'' [],
                        exNode ''P'' ''predict'' []]"

definition outgoingOnlyConns :: "ConnectionData list" where
  "outgoingOnlyConns = [exConn ''S'' ''X_train'' ''P'' ''X_test'']"

text \<open>Three nodes that fail all three checks of the validation at once: no loader, the
  isolated scaler T, and the classifier C without its \<open>y_train\<close> input.\<close>

definition gateNodes :: "NodeData list" where
  "gateNodes = [exNode ''T'' ''scaler'' [], exNode ''C'' ''classifier'' [],
                exNode ''S'' ''dataSplit'' []]"

definition gateConns :: "ConnectionData list" where
  "gateConns = [exConn ''S'' ''X_train'' ''C'' ''X_train'']"

text \<open>A classifier without \<open>y_train\<close> in a graph without a loader; a classifier and a
  regressor that both lack \<open>y_train\<close>; a classifier without \<open>y_train\<close> as the only
  violation.\<close>

definition noLoaderGraph :: GraphData where
  "noLoaderGraph =
     \<lparr>nodes = [exNode ''S'' ''dataSplit'' [], exNode ''C'' ''classifier'' []],
      connections = [exConn ''S'' ''X_train'' ''C'' ''X_train'']\<rparr>"

definition twoOffendersGraph :: GraphData where
  "twoOffendersGraph =
     \<lparr>nodes = [exNode ''L'' ''dataLoader'' [], exNode ''S'' ''dataSplit'' [],
               exNode ''C'' ''classifier'' [], exNode ''R'' ''regressor'' []],
      connections = [exConn ''L'' ''data'' ''S'' ''data'',
                     exConn ''S'' ''X_train'' ''C'' ''X_train'',
                     exConn ''S'' ''X_train'' ''R'' ''X_train'']\<rparr>"

definition missingLabelGraph :: GraphData where
  "missingLabelGraph =
     \<lparr>nodes = [exNode ''L'' ''dataLoader'' [], exNode ''S'' ''dataSplit'' [],
               exNode ''C'' ''classifier'' []],
      connections = [exConn ''L'' ''data'' ''S'' ''data'',
                     exConn ''S'' ''X_train'' ''C'' ''X_train'']\<rparr>"

text \<open>The connections of a scaler Z fed by a split S: the training input only, and both
  inputs.\<close>

definition scalerTrainConns :: "ConnectionData list" where
  "scalerTrainConns = [exConn ''S'' ''X_train'' ''Z'' ''X_train'']"

definition scalerBothConns :: "ConnectionData list" where
  "scalerBothConns = [exConn ''S'' ''X_train'' ''Z'' ''X_train'',
                      exConn ''S'' ''X_test'' ''Z'' ''X_test'']"

text \<open>A loader feeding a scaler A, whose output feeds a scaler B, whose output is wired
  back into the second input of A.\<close>

definition cyclicGraph :: GraphData where
  "cyclicGraph =
     \<lparr>nodes = [exNode ''L'' ''dataLoader'' [], exNode ''A'' ''scaler'' [],
               exNode ''B'' ''scaler'' []],
      connections = [exConn ''L'' ''data'' ''A'' ''X_train'',
                     exConn ''A'' ''X_train'' ''B'' ''X_train'',
                     exConn ''B'' ''X_train'' ''A'' ''X_test'']\<rparr>"

text \<open>The graph of the two trainers with one more node, of a kind that is not an ML
  kind.\<close>

definition annotatedTrainersGraph :: GraphData where
  "annotatedTrainersGraph =
     \<lparr>nodes = nodes trainersGraph @ [exNode ''N'' ''note'' []],
      connections = connections trainersGraph\<rparr>"






text \<open>A loader, a split and a scaler Z that takes the test data of the split; the
  \<open>X_train\<close> input of Z is not connected.\<close>

definition placeholderGraph :: GraphData where
  "placeholderGraph =
     \<lparr>nodes = [exNode ''L'' ''dataLoader'' [], exNode ''S'' ''dataSplit'' [],
               exNode ''Z'' ''scaler'' []],
      connections = [exConn ''L'' ''data'' ''S'' ''data'',
                     exConn ''S'' ''X_test'' ''Z'' ''X_test'']\<rparr>"

section \<open>Evaluation on concrete inputs\<close>

lemmas topo_eval = topologicalSort_def buildGraph_def initGraph_def initInDegree_def
  addConnection_def degreeOf_def initialQueue_def nodeMapOf_def kahnLoop.simps kahnStep_def
  relax_def Let_def

lemmas validate_eval = validatePipelineStructure_def hasDataLoader_def orphanedNodes_def
  connectedNodes_def requiredInputViolation_def Let_def

lemmas example_defs = exNode_def exConn_def mlNodesOf_def mlKinds_def

lemma double_zero: "double 0 = 0"
  by (simp add: double_def)

text \<open>The default ratio: \<open>0.8\<close> is the double \<open>3602879701896397 / 2^52\<close>, and \<open>1 - 0.8\<close>
  prints as \<open>0.20\<close>.\<close>

lemma double_default_ratio: "double (8 / 10) = 3602879701896397 / 4503599627370496"
  by code_simp

lemma double_examples:
  "double 1 = 1 \<and> double (1 / 2) = 1 / 2
   \<and> double (double (8 / 10)) = double (8 / 10)
   \<and> double (double (1 / 10) + double (2 / 10)) = 1351079888211149 / 4503599627370496"
  by code_simp

lemma testSize_of_default: "toFixed2 e (Some (double (1 - double (8 / 10)))) = ''0.20''"
  by code_simp

lemma testSize_of_zero: "toFixed2 e (Some (double (1 - double 0))) = ''1.00''"
  by code_simp

text \<open>\<open>(1 - 0.675).toFixed(2)\<close> is \<open>0.32\<close>: the difference of the doubles lies below
  \<open>0.325\<close>.\<close>

lemma testSize_rounds_as_double:
  "toFixed2 e (Some (double (1 - double (675 / 1000)))) = ''0.32''"
  by code_simp

lemma dataSplitTestSize_default:
  assumes "\<not> truthy (control node ''ratio'')"
  shows "dataSplitTestSize e node = ''0.20''"
proof -
  from assms have "dataSplitRatio node = JNum (8 / 10)"
    unfolding dataSplitRatio_def orElse_def by (simp only: if_False)
  then have "dataSplitTestSize e node = toFixed2 e (Some (double (1 - double (8 / 10))))"
    unfolding dataSplitTestSize_def by (simp only: toNumber.simps option.map)
  then show ?thesis by (simp only: testSize_of_default)
qed

text \<open>\<open>replace\<close> counts UTF-16 code units: a Hangul syllable (three bytes) and the
  superscript two (two bytes) give one underscore each, the chart emoji (four bytes, a
  surrogate pair) gives two.\<close>

lemma sanitize_examples:
  "sanitize ''node-1 a'' = ''node_1_a''
   \<and> sanitize [CHR 0xEB, CHR 0x85, CHR 0xB8, CHR ''1''] = ''_1''
   \<and> sanitize sup2 = ''_''
   \<and> sanitize chart_emoji = ''__''"
  by code_simp

section \<open>Correctness of the scheduler\<close>

subsection \<open>Association lists as JavaScript maps\<close>

lemma degreeOf_update: "degreeOf (AList.update k x d) u = (if u = k then x else degreeOf d u)"
  by (simp add: degreeOf_def update_conv')

lemma map_of_fold_update_const:
  "map_of (fold (\<lambda>n. AList.update (f n) c) ns al) v
     = (if v \<in> f ` set ns then Some c else map_of al v)"
  by (induction ns arbitrary: al) (auto simp: update_conv')

lemma map_of_fold_update_other:
  "v \<notin> f ` set ns \<Longrightarrow> map_of (fold (\<lambda>n. AList.update (f n) (g n)) ns al) v = map_of al v"
  by (induction ns arbitrary: al) (auto simp: update_conv')

lemma map_of_fold_update_self:
  "distinct (map f ns) \<Longrightarrow> n \<in> set ns
    \<Longrightarrow> map_of (fold (\<lambda>n. AList.update (f n) (g n)) ns al) (f n) = Some (g n)"
proof (induction ns arbitrary: al)
  case Nil
  then show ?case by simp
next
  case (Cons m ns)
  show ?case
  proof (cases "n = m")
    case True
    with Cons.prems have "f n \<notin> f ` set ns" by auto
    then show ?thesis using True by (simp add: map_of_fold_update_other update_conv')
  next
    case False
    with Cons show ?thesis by auto
  qed
qed

lemma keys_fold_update:
  "distinct (map f ns) \<Longrightarrow> set (map f ns) \<inter> fst ` set al = {}
    \<Longrightarrow> map fst (fold (\<lambda>n. AList.update (f n) (g n)) ns al) = map fst al @ map f ns"
proof (induction ns arbitrary: al)
  case Nil
  then show ?case by simp
next
  case (Cons m ns)
  have k: "map fst (AList.update (f m) (g m) al) = map fst al @ [f m]"
    using Cons.prems by (auto simp: update_keys)
  have "set (map f ns) \<inter> fst ` set (AList.update (f m) (g m) al) = {}"
    using Cons.prems by (auto simp: dom_update)
  with Cons.IH [of "AList.update (f m) (g m) al"] Cons.prems k show ?case by simp
qed

subsection \<open>The adjacency and in-degree maps\<close>

lemma addConnection_pair:
  "addConnection c (g, d)
     = ((case map_of g (source c) of
           None \<Rightarrow> g
         | Some ts \<Rightarrow> AList.update (source c) (ts @ [target c]) g),
        AList.update (target c) (degreeOf d (target c) + 1) d)"
  by (simp add: addConnection_def)

lemma fold_addConnection_graph:
  "map_of (fst (fold addConnection cs (g, d))) v
     = (case map_of g v of
          None \<Rightarrow> None
        | Some ts \<Rightarrow> Some (ts @ map target (filter (\<lambda>c. source c = v) cs)))"
proof (induction cs arbitrary: g d)
  case Nil
  then show ?case by (simp split: option.split)
next
  case (Cons c cs)
  show ?case
    by (simp add: addConnection_pair Cons.IH update_conv' split: option.split)
qed

lemma fold_addConnection_degree:
  "degreeOf (snd (fold addConnection cs (g, d))) v
     = degreeOf d v + int (length (filter (\<lambda>c. target c = v) cs))"
proof (induction cs arbitrary: g d)
  case Nil
  then show ?case by simp
next
  case (Cons c cs)
  show ?case by (simp add: addConnection_pair Cons.IH degreeOf_update)
qed

lemma fold_addConnection_keys:
  "\<forall>c \<in> set cs. target c \<in> fst ` set d
    \<Longrightarrow> map fst (snd (fold addConnection cs (g, d))) = map fst d"
proof (induction cs arbitrary: g d)
  case Nil
  then show ?case by simp
next
  case (Cons c cs)
  have k: "map fst (AList.update (target c) (degreeOf d (target c) + 1) d) = map fst d"
    using Cons.prems by (simp add: update_keys)
  then have "fst ` set (AList.update (target c) (degreeOf d (target c) + 1) d) = fst ` set d"
    by (metis list.set_map)
  with Cons.prems k Cons.IH show ?case by (simp add: addConnection_pair)
qed

lemma initialQueue_filter:
  "distinct (map fst d) \<Longrightarrow> initialQueue d = filter (\<lambda>v. degreeOf d v = 0) (map fst d)"
proof -
  assume dist: "distinct (map fst d)"
  have "\<And>p. p \<in> set d \<Longrightarrow> degreeOf d (fst p) = snd p"
    using dist by (auto simp: degreeOf_def)
  then have "filter (\<lambda>p. snd p = 0) d = filter (\<lambda>p. degreeOf d (fst p) = 0) d"
    by (intro filter_cong) auto
  then show ?thesis by (simp add: initialQueue_def filter_map comp_def)
qed

lemma buildGraph_graph:
  "map_of (fst (buildGraph ns conns)) v
     = (if v \<in> set (map node_id ns)
        then Some (map target (filter (\<lambda>c. source c = v) conns)) else None)"
  by (simp add: buildGraph_def fold_addConnection_graph initGraph_def map_of_fold_update_const)

lemma buildGraph_degree:
  "degreeOf (snd (buildGraph ns conns)) v = int (inDegreeOf conns v)"
proof -
  have "degreeOf (initInDegree ns) v = 0"
    by (simp add: degreeOf_def initInDegree_def map_of_fold_update_const)
  then show ?thesis
    by (simp add: buildGraph_def fold_addConnection_degree inDegreeOf_def)
qed

lemma buildGraph_keys:
  assumes "wellFormed ns conns"
  shows "map fst (snd (buildGraph ns conns)) = map node_id ns"
proof -
  have k: "map fst (initInDegree ns) = map node_id ns"
    using assms keys_fold_update [of node_id ns "[]" "\<lambda>n. 0"]
    by (simp add: initInDegree_def wellFormed_def)
  then have "fst ` set (initInDegree ns) = set (map node_id ns)"
    by (metis list.set_map)
  with assms have "\<forall>c \<in> set conns. target c \<in> fst ` set (initInDegree ns)"
    by (simp add: wellFormed_def)
  from fold_addConnection_keys [OF this] k show ?thesis by (simp add: buildGraph_def)
qed

lemma buildGraph_queue:
  assumes "wellFormed ns conns"
  shows "initialQueue (snd (buildGraph ns conns))
           = filter (\<lambda>v. inDegreeOf conns v = 0) (map node_id ns)"
proof -
  have "distinct (map fst (snd (buildGraph ns conns)))"
    using assms buildGraph_keys [OF assms] by (simp add: wellFormed_def)
  from initialQueue_filter [OF this] show ?thesis
    by (simp add: buildGraph_keys [OF assms] buildGraph_degree)
qed

lemma nodeMapOf_lookup:
  "distinct (map node_id ns) \<Longrightarrow> n \<in> set ns \<Longrightarrow> map_of (nodeMapOf ns) (node_id n) = Some n"
  unfolding nodeMapOf_def by (rule map_of_fold_update_self)

subsection \<open>The inner loop\<close>

lemma relax_pair:
  "relax t (d, q)
     = (AList.update t (degreeOf d t - 1) d,
        if degreeOf d t - 1 = 0 then q @ [t] else q)"
  by (simp add: relax_def Let_def)

lemma fold_relax_degree:
  "degreeOf (fst (fold relax ts (d, q))) u = degreeOf d u - int (count_list ts u)"
proof (induction ts arbitrary: d q)
  case Nil
  then show ?case by simp
next
  case (Cons t ts)
  show ?case by (simp add: relax_pair Cons.IH degreeOf_update)
qed

lemma fold_relax_queue:
  "\<forall>u. int (count_list ts u) \<le> degreeOf d u
    \<Longrightarrow> \<exists>new. snd (fold relax ts (d, q)) = q @ new \<and> distinct new
              \<and> set new = {u \<in> set ts. degreeOf d u = int (count_list ts u)}"
proof (induction ts arbitrary: d q)
  case Nil
  then show ?case by simp
next
  case (Cons t ts)
  let ?d1 = "AList.update t (degreeOf d t - 1) d"
  let ?q1 = "if degreeOf d t - 1 = 0 then q @ [t] else q"
  have tcount: "int (count_list ts t) + 1 \<le> degreeOf d t"
    using Cons.prems [rule_format, of t] by simp
  have other: "int (count_list ts u) \<le> degreeOf d u" if "u \<noteq> t" for u
    using Cons.prems [rule_format, of u] that by simp
  have d1t: "degreeOf ?d1 t = degreeOf d t - 1" by (simp add: degreeOf_update)
  have d1u: "degreeOf ?d1 u = degreeOf d u" if "u \<noteq> t" for u
    using that by (simp add: degreeOf_update)
  have pre: "\<forall>u. int (count_list ts u) \<le> degreeOf ?d1 u"
  proof
    fix u
    show "int (count_list ts u) \<le> degreeOf ?d1 u"
    proof (cases "u = t")
      case True
      then show ?thesis using tcount d1t by simp
    next
      case False
      then show ?thesis using other d1u by simp
    qed
  qed
  from Cons.IH [OF pre, of ?q1] obtain new1 where
    n1: "snd (fold relax ts (?d1, ?q1)) = ?q1 @ new1" and
    n2: "distinct new1" and
    n3: "set new1 = {u \<in> set ts. degreeOf ?d1 u = int (count_list ts u)}"
    by blast
  have step: "fold relax (t # ts) (d, q) = fold relax ts (?d1, ?q1)"
    by (simp add: relax_pair)
  have mem: "u \<in> set new1 \<longleftrightarrow> u \<in> set ts \<and> degreeOf ?d1 u = int (count_list ts u)" for u
    using n3 by blast
  show ?case
  proof (cases "degreeOf d t = 1")
    case True
    then have "count_list ts t = 0" using tcount by simp
    then have tnot: "t \<notin> set ts" by (simp add: count_list_0_iff)
    have q: "snd (fold relax (t # ts) (d, q)) = q @ (t # new1)"
      using n1 True step by simp
    have dist: "distinct (t # new1)" using n2 mem tnot by simp
    have "set (t # new1) = {u \<in> set (t # ts). degreeOf d u = int (count_list (t # ts) u)}"
    proof (rule set_eqI)
      fix u
      show "u \<in> set (t # new1)
              \<longleftrightarrow> u \<in> {u \<in> set (t # ts). degreeOf d u = int (count_list (t # ts) u)}"
      proof (cases "u = t")
        case True
        then show ?thesis using \<open>degreeOf d t = 1\<close> \<open>count_list ts t = 0\<close> by simp
      next
        case False
        then show ?thesis using mem [of u] d1u [of u] by simp
      qed
    qed
    with q dist show ?thesis by blast
  next
    case False
    have q: "snd (fold relax (t # ts) (d, q)) = q @ new1"
      using n1 False step by simp
    have "set new1 = {u \<in> set (t # ts). degreeOf d u = int (count_list (t # ts) u)}"
    proof (rule set_eqI)
      fix u
      show "u \<in> set new1
              \<longleftrightarrow> u \<in> {u \<in> set (t # ts). degreeOf d u = int (count_list (t # ts) u)}"
      proof (cases "u = t")
        case True
        have "t \<notin> set ts \<Longrightarrow> degreeOf d t - 1 \<noteq> int (count_list ts t)"
          using False by (simp add: count_list_0_iff)
        then show ?thesis using True mem [of t] d1t by auto
      next
        case False
        then show ?thesis using mem [of u] d1u [of u] by simp
      qed
    qed
    with q n2 show ?thesis by blast
  qed
qed

lemma count_list_map_target:
  "count_list (map target (filter (\<lambda>c. source c = v) conns)) u
     = length (filter (\<lambda>c. source c = v \<and> target c = u) conns)"
  by (induction conns) auto

subsection \<open>The invariant of the outer loop\<close>

lemma precedes_append: "precedes x y l \<Longrightarrow> precedes x y (l @ l')"
  by (induction l) (auto split: if_splits)

lemma precedes_snoc: "x \<in> set l \<Longrightarrow> precedes x y (l @ [y])"
  by (induction l) auto

lemma remaining_split:
  "v \<notin> set P \<Longrightarrow>
   remaining conns P u
     = remaining conns (P @ [v]) u + length (filter (\<lambda>c. source c = v \<and> target c = u) conns)"
  unfolding remaining_def by (induction conns) auto

lemma remaining_zero_sources:
  "remaining conns P v = 0 \<Longrightarrow> c \<in> set conns \<Longrightarrow> target c = v \<Longrightarrow> source c \<in> set P"
  unfolding remaining_def by (auto simp: filter_empty_conv)

lemma sources_remaining_zero:
  "(\<And>c. c \<in> set conns \<Longrightarrow> target c = v \<Longrightarrow> source c \<in> set P) \<Longrightarrow> remaining conns P v = 0"
  unfolding remaining_def by (auto simp: filter_empty_conv)

lemma kahnStep_inv:
  assumes wf: "wellFormed ns conns"
      and inv: "kahnInv ns conns (v # Q, D, S)"
  shows "\<exists>new D' n. kahnStep (fst (buildGraph ns conns)) (nodeMapOf ns) (v # Q, D, S)
                       = (Q @ new, D', S @ [n])
                     \<and> node_id n = v
                     \<and> kahnInv ns conns (Q @ new, D', S @ [n])"
proof -
  let ?P = "map node_id S"
  let ?ids = "set (map node_id ns)"
  let ?nbrs = "map target (filter (\<lambda>c. source c = v) conns)"
  from inv have dist: "distinct (?P @ v # Q)"
    and sub: "set (?P @ v # Q) \<subseteq> ?ids"
    and Ssub: "set S \<subseteq> set ns"
    and deg: "\<And>u. degreeOf D u = int (remaining conns ?P u)"
    and zero: "\<And>u. u \<in> ?ids \<Longrightarrow> (u \<in> set (?P @ v # Q)) = (remaining conns ?P u = 0)"
    and ord: "\<And>c. c \<in> set conns \<Longrightarrow> target c \<in> set ?P
                \<Longrightarrow> precedes (source c) (target c) ?P"
    by (auto simp: kahnInv_def)
  from sub have vid: "v \<in> ?ids" by simp
  then obtain n where n: "n \<in> set ns" "node_id n = v" by auto
  from wf have dn: "distinct (map node_id ns)" by (simp add: wellFormed_def)
  from wf have tgt: "\<And>c. c \<in> set conns \<Longrightarrow> target c \<in> ?ids"
    and src: "\<And>c. c \<in> set conns \<Longrightarrow> source c \<in> ?ids"
    by (auto simp: wellFormed_def)
  have NM: "map_of (nodeMapOf ns) v = Some n"
    using nodeMapOf_lookup [OF dn n(1)] n(2) by simp
  have G: "map_of (fst (buildGraph ns conns)) v = Some ?nbrs"
    using vid by (simp add: buildGraph_graph)
  from dist have vP: "v \<notin> set ?P" by auto
  have split: "remaining conns ?P u
                = remaining conns (?P @ [v]) u + count_list ?nbrs u" for u
    using remaining_split [OF vP, of conns u] by (simp add: count_list_map_target)
  have le: "\<forall>u. int (count_list ?nbrs u) \<le> degreeOf D u"
    using split deg by simp
  from fold_relax_queue [OF le, of Q] obtain new where
    q: "snd (fold relax ?nbrs (D, Q)) = Q @ new" and
    dnew: "distinct new" and
    snew: "set new = {u \<in> set ?nbrs. degreeOf D u = int (count_list ?nbrs u)}"
    by blast
  define D' where "D' = fst (fold relax ?nbrs (D, Q))"
  have step: "kahnStep (fst (buildGraph ns conns)) (nodeMapOf ns) (v # Q, D, S)
                = (Q @ new, D', S @ [n])"
    using NM G q by (simp add: kahnStep_def D'_def)
  have deg': "degreeOf D' u = int (remaining conns (?P @ [v]) u)" for u
    using fold_relax_degree [of ?nbrs D Q u] deg [of u] split [of u] by (simp add: D'_def)
  have nbrs_ids: "set ?nbrs \<subseteq> ?ids" using tgt by auto
  have new_mem: "u \<in> set new \<longleftrightarrow> u \<in> set ?nbrs \<and> remaining conns (?P @ [v]) u = 0" for u
    using snew deg [of u] split [of u] by auto
  have new_pos: "0 < remaining conns ?P u" if "u \<in> set new" for u
  proof -
    from that have "u \<in> set ?nbrs" using new_mem by blast
    then have "count_list ?nbrs u \<noteq> 0" by (simp only: count_list_0_iff not_not)
    with split [of u] show ?thesis by simp
  qed
  have new_fresh: "u \<notin> set (?P @ v # Q)" if "u \<in> set new" for u
  proof -
    from that have "u \<in> ?ids" using new_mem nbrs_ids by blast
    from zero [OF this] new_pos [OF that] show ?thesis by simp
  qed
  have i1: "distinct (map node_id (S @ [n]) @ Q @ new)"
    using dist dnew new_fresh n(2) by auto
  have i2: "set (map node_id (S @ [n]) @ Q @ new) \<subseteq> ?ids"
    using sub new_mem nbrs_ids n(2) by auto
  have i3: "set (S @ [n]) \<subseteq> set ns" using Ssub n(1) by simp
  have i5: "(u \<in> set (map node_id (S @ [n]) @ Q @ new))
              = (remaining conns (map node_id (S @ [n])) u = 0)" if uid: "u \<in> ?ids" for u
  proof
    assume "u \<in> set (map node_id (S @ [n]) @ Q @ new)"
    then consider "u \<in> set (?P @ v # Q)" | "u \<in> set new" using n(2) by auto
    then show "remaining conns (map node_id (S @ [n])) u = 0"
    proof cases
      case 1
      with zero [OF uid] have "remaining conns ?P u = 0" by simp
      with split [of u] show ?thesis using n(2) by simp
    next
      case 2
      then show ?thesis using new_mem n(2) by simp
    qed
  next
    assume r0: "remaining conns (map node_id (S @ [n])) u = 0"
    then have r0': "remaining conns (?P @ [v]) u = 0" using n(2) by simp
    show "u \<in> set (map node_id (S @ [n]) @ Q @ new)"
    proof (cases "remaining conns ?P u = 0")
      case True
      with zero [OF uid] have "u \<in> set (?P @ v # Q)" by simp
      then show ?thesis using n(2) by auto
    next
      case False
      with split [of u] r0' have "count_list ?nbrs u \<noteq> 0" by simp
      then have "u \<in> set ?nbrs" by (simp only: count_list_0_iff not_not)
      with r0' have "u \<in> set new" using new_mem by blast
      then show ?thesis by simp
    qed
  qed
  have i6: "precedes (source c) (target c) (map node_id (S @ [n]))"
    if c: "c \<in> set conns" and t: "target c \<in> set (map node_id (S @ [n]))" for c
  proof (cases "target c \<in> set ?P")
    case True
    from precedes_append [OF ord [OF c True], of "[v]"] show ?thesis using n(2) by simp
  next
    case False
    with t n(2) have tv: "target c = v" by auto
    from zero [OF vid] have "remaining conns ?P v = 0" by simp
    from remaining_zero_sources [OF this c tv] have "source c \<in> set ?P" .
    from precedes_snoc [OF this, of v] show ?thesis using tv n(2) by simp
  qed
  have "kahnInv ns conns (Q @ new, D', S @ [n])"
    unfolding kahnInv_def using i1 i2 i3 deg' i5 i6 n(2) by simp
  with step n(2) show ?thesis by blast
qed

lemma kahnLoop_inv:
  assumes wf: "wellFormed ns conns"
  shows "G = fst (buildGraph ns conns) \<Longrightarrow> NM = nodeMapOf ns \<Longrightarrow> kahnInv ns conns st
    \<Longrightarrow> (\<exists>D'. kahnInv ns conns ([], D', kahnLoop G NM st))
        \<and> prefix (map node_id (snd (snd st)) @ fst st) (map node_id (kahnLoop G NM st))"
proof (induction G NM st rule: kahnLoop.induct)
  case (1 graph nodeMap queue inDegree sortedN)
  show ?case
  proof (cases queue)
    case Nil
    then show ?thesis using "1.prems" by (auto simp: kahnLoop.simps)
  next
    case (Cons v Q)
    from "1.prems" Cons have inv: "kahnInv ns conns (v # Q, inDegree, sortedN)" by simp
    from kahnStep_inv [OF wf inv] "1.prems" obtain new D' n where
      step: "kahnStep graph nodeMap (queue, inDegree, sortedN) = (Q @ new, D', sortedN @ [n])"
      and nv: "node_id n = v"
      and inv': "kahnInv ns conns (Q @ new, D', sortedN @ [n])"
      using Cons by auto
    have ne: "queue \<noteq> []" using Cons by simp
    from "1.IH" [OF ne "1.prems"(1) "1.prems"(2)] inv' step
    have ih: "(\<exists>D''. kahnInv ns conns ([], D'', kahnLoop graph nodeMap (Q @ new, D', sortedN @ [n])))
              \<and> prefix (map node_id (sortedN @ [n]) @ Q @ new)
                   (map node_id (kahnLoop graph nodeMap (Q @ new, D', sortedN @ [n])))"
      by simp
    have unfold: "kahnLoop graph nodeMap (queue, inDegree, sortedN)
                    = kahnLoop graph nodeMap (Q @ new, D', sortedN @ [n])"
      using ne step by (simp add: kahnLoop.simps)
    have p1: "prefix (map node_id sortedN @ queue) (map node_id (sortedN @ [n]) @ Q @ new)"
      using Cons nv by simp
    from ih have p2: "prefix (map node_id (sortedN @ [n]) @ Q @ new)
                        (map node_id (kahnLoop graph nodeMap (queue, inDegree, sortedN)))"
      using unfold by simp
    from ih obtain D'' where
      "kahnInv ns conns ([], D'', kahnLoop graph nodeMap (queue, inDegree, sortedN))"
      using unfold by auto
    moreover from prefix_order.trans [OF p1 p2]
    have "prefix (map node_id (snd (snd (queue, inDegree, sortedN))) @ fst (queue, inDegree, sortedN))
            (map node_id (kahnLoop graph nodeMap (queue, inDegree, sortedN)))"
      by simp
    ultimately show ?thesis by blast
  qed
qed

lemma kahnInv_initial:
  assumes wf: "wellFormed ns conns"
  shows "kahnInv ns conns
           (initialQueue (snd (buildGraph ns conns)), snd (buildGraph ns conns), [])"
proof -
  have r: "remaining conns [] v = inDegreeOf conns v" for v
    by (simp add: remaining_def inDegreeOf_def)
  from wf have "distinct (map node_id ns)" by (simp add: wellFormed_def)
  then show ?thesis
    unfolding kahnInv_def by (auto simp: buildGraph_queue [OF wf] buildGraph_degree r)
qed

lemma kahn_complete:
  assumes wf: "wellFormed ns conns"
      and ac: "acyclic (edgesOf conns)"
      and inv: "kahnInv ns conns ([], D, R)"
  shows "set (map node_id R) = set (map node_id ns)"
proof (rule ccontr)
  let ?P = "map node_id R"
  let ?U = "set (map node_id ns) - set ?P"
  assume "set ?P \<noteq> set (map node_id ns)"
  moreover from inv have "set ?P \<subseteq> set (map node_id ns)" by (simp add: kahnInv_def)
  ultimately have "?U \<noteq> {}" by blast
  have "wf (edgesOf conns)"
    using ac by (intro finite_acyclic_wf) (simp_all add: edgesOf_def)
  from wfE_min' [OF this \<open>?U \<noteq> {}\<close>] obtain z where
    z: "z \<in> ?U" and zmin: "\<And>y. (y, z) \<in> edgesOf conns \<Longrightarrow> y \<notin> ?U"
    by blast
  have "source c \<in> set ?P" if "c \<in> set conns" "target c = z" for c
  proof -
    from that have "(source c, z) \<in> edgesOf conns" by (auto simp: edgesOf_def)
    from zmin [OF this] have "source c \<notin> ?U" .
    moreover from wf that have "source c \<in> set (map node_id ns)" by (simp add: wellFormed_def)
    ultimately show ?thesis by simp
  qed
  then have r0: "remaining conns ?P z = 0" by (rule sources_remaining_zero)
  from inv have zero: "\<And>u. u \<in> set (map node_id ns)
                         \<Longrightarrow> (u \<in> set ?P) = (remaining conns ?P u = 0)"
    by (auto simp: kahnInv_def)
  from z have "z \<in> set (map node_id ns)" by blast
  from zero [OF this] r0 z show False by blast
qed

lemma topologicalSort_schedule:
  assumes wf: "wellFormed ns conns" and ac: "acyclic (edgesOf conns)"
  shows "mset (topologicalSort ns conns) = mset ns
         \<and> (\<forall>c \<in> set conns. precedes (source c) (target c) (map node_id (topologicalSort ns conns)))
         \<and> prefix (filter (\<lambda>v. inDegreeOf conns v = 0) (map node_id ns))
             (map node_id (topologicalSort ns conns))"
proof -
  let ?R = "topologicalSort ns conns"
  let ?st = "(initialQueue (snd (buildGraph ns conns)), snd (buildGraph ns conns), [])"
  have R: "?R = kahnLoop (fst (buildGraph ns conns)) (nodeMapOf ns) ?st"
    by (simp add: topologicalSort_def Let_def)
  from kahnLoop_inv [OF wf refl refl kahnInv_initial [OF wf]] R
  obtain D' where inv: "kahnInv ns conns ([], D', ?R)"
    and pre: "prefix (initialQueue (snd (buildGraph ns conns))) (map node_id ?R)"
    by auto
  from kahn_complete [OF wf ac inv] have all: "set (map node_id ?R) = set (map node_id ns)" .
  from inv have dR: "distinct (map node_id ?R)" and sub: "set ?R \<subseteq> set ns"
    and ord: "\<And>c. c \<in> set conns \<Longrightarrow> target c \<in> set (map node_id ?R)
                \<Longrightarrow> precedes (source c) (target c) (map node_id ?R)"
    by (auto simp: kahnInv_def)
  from wf have dn: "distinct (map node_id ns)" by (simp add: wellFormed_def)
  then have inj: "inj_on node_id (set ns)" and dns: "distinct ns" by (auto simp: distinct_map)
  have "set ns \<subseteq> set ?R"
  proof
    fix n assume n: "n \<in> set ns"
    then have "node_id n \<in> set (map node_id ?R)" using all by simp
    then obtain m where m: "m \<in> set ?R" "node_id m = node_id n" by auto
    with sub n inj have "m = n" by (auto dest: inj_onD)
    with m show "n \<in> set ?R" by simp
  qed
  with sub have "set ?R = set ns" by blast
  moreover from dR have "distinct ?R" by (simp add: distinct_map)
  ultimately have perm: "mset ?R = mset ns"
    using dns by (simp add: set_eq_iff_mset_eq_distinct)
  have o: "\<forall>c \<in> set conns. precedes (source c) (target c) (map node_id ?R)"
  proof
    fix c assume c: "c \<in> set conns"
    with wf have "target c \<in> set (map node_id ns)" by (simp add: wellFormed_def)
    with all have "target c \<in> set (map node_id ?R)" by simp
    from ord [OF c this] show "precedes (source c) (target c) (map node_id ?R)" .
  qed
  from pre have "prefix (filter (\<lambda>v. inDegreeOf conns v = 0) (map node_id ns)) (map node_id ?R)"
    by (simp add: buildGraph_queue [OF wf])
  with perm o show ?thesis by blast
qed

subsection \<open>A complete schedule means an acyclic graph\<close>

lemma precedes_in_set: "precedes x y l \<Longrightarrow> x \<in> set l \<and> y \<in> set l"
  by (induction l) (auto split: if_splits)

lemma precedes_index:
  "distinct l \<Longrightarrow> precedes x y l
    \<Longrightarrow> length (takeWhile (\<lambda>z. z \<noteq> x) l) < length (takeWhile (\<lambda>z. z \<noteq> y) l)"
proof (induction l)
  case Nil
  then show ?case by simp
next
  case (Cons z l)
  show ?case
  proof (cases "z = x")
    case True
    with Cons.prems have "y \<in> set l" "x \<notin> set l" by auto
    then have "y \<noteq> x" by auto
    with True show ?thesis by simp
  next
    case False
    with Cons.prems have p: "precedes x y l" by simp
    from precedes_in_set [OF p] Cons.prems(1) have "z \<noteq> y" by auto
    with False Cons.IH p Cons.prems(1) show ?thesis by simp
  qed
qed

lemma ordered_acyclic:
  assumes "distinct l" and "\<And>c. c \<in> set conns \<Longrightarrow> precedes (source c) (target c) l"
  shows "acyclic (edgesOf conns)"
proof (rule acyclicI_order)
  fix a b assume "(a, b) \<in> edgesOf conns"
  then obtain c where "c \<in> set conns" "a = source c" "b = target c"
    by (auto simp: edgesOf_def)
  with assms(2) have "precedes a b l" by simp
  from precedes_index [OF assms(1) this]
  show "length l - length (takeWhile (\<lambda>z. z \<noteq> b) l) < length l - length (takeWhile (\<lambda>z. z \<noteq> a) l)"
    using length_takeWhile_le [of "\<lambda>z. z \<noteq> b" l] by simp
qed

lemma cyclic_schedule_incomplete:
  assumes wf: "wellFormed ns conns" and cyc: "\<not> acyclic (edgesOf conns)"
  shows "length (topologicalSort ns conns) < length ns"
proof -
  let ?R = "topologicalSort ns conns"
  let ?st = "(initialQueue (snd (buildGraph ns conns)), snd (buildGraph ns conns), [])"
  have R: "?R = kahnLoop (fst (buildGraph ns conns)) (nodeMapOf ns) ?st"
    by (simp add: topologicalSort_def Let_def)
  from kahnLoop_inv [OF wf refl refl kahnInv_initial [OF wf]] R
  obtain D' where inv: "kahnInv ns conns ([], D', ?R)" by auto
  from inv have dR: "distinct (map node_id ?R)" and sub: "set ?R \<subseteq> set ns"
    and ord: "\<And>c. c \<in> set conns \<Longrightarrow> target c \<in> set (map node_id ?R)
                \<Longrightarrow> precedes (source c) (target c) (map node_id ?R)"
    by (auto simp: kahnInv_def)
  from wf have dn: "distinct (map node_id ns)" by (simp add: wellFormed_def)
  then have dns: "distinct ns" by (simp add: distinct_map)
  from dR have dRn: "distinct ?R" by (simp add: distinct_map)
  have "set ?R \<noteq> set ns"
  proof
    assume eq: "set ?R = set ns"
    have "precedes (source c) (target c) (map node_id ?R)" if c: "c \<in> set conns" for c
    proof -
      from wf c have "target c \<in> set (map node_id ns)" by (simp add: wellFormed_def)
      with eq have "target c \<in> set (map node_id ?R)" by simp
      from ord [OF c this] show ?thesis .
    qed
    from ordered_acyclic [OF dR this] cyc show False by simp
  qed
  with sub have "set ?R \<subset> set ns" by blast
  then have "card (set ?R) < card (set ns)" by (intro psubset_card_mono) simp_all
  with dRn dns show ?thesis by (simp add: distinct_card)
qed

section \<open>Properties of the validation\<close>

lemma checkRequiredInputs_ok:
  "checkRequiredInputs ns conns = Inr () \<longleftrightarrow> (\<forall>n \<in> set ns. requiredInputViolation n conns = None)"
  by (induction ns) (auto split: option.splits)

lemma checkRequiredInputs_first:
  "(\<forall>m \<in> set pre. requiredInputViolation m conns = None)
    \<Longrightarrow> requiredInputViolation n conns = Some e
    \<Longrightarrow> checkRequiredInputs (pre @ n # post) conns = Inl e"
  by (induction pre) auto

lemma requiredInputViolation_None:
  "requiredInputViolation n conns = None \<longleftrightarrow>
     (kind n = ''dataSplit'' \<longrightarrow> (\<exists>c \<in> set conns. target c = node_id n))
     \<and> (kind n \<in> {''classifier'', ''regressor'', ''neuralNet''} \<longrightarrow>
          (\<exists>c \<in> set conns. target c = node_id n \<and> targetInput c = ''X_train'')
          \<and> (\<exists>c \<in> set conns. target c = node_id n \<and> targetInput c = ''y_train''))"
  by (auto simp: requiredInputViolation_def Let_def list_ex_iff filter_empty_conv)

lemma requiredInputViolation_trainer:
  "kind n \<in> {''classifier'', ''regressor'', ''neuralNet''}
    \<Longrightarrow> \<not> (\<exists>c \<in> set conns. target c = node_id n \<and> targetInput c = ''X_train'')
        \<or> \<not> (\<exists>c \<in> set conns. target c = node_id n \<and> targetInput c = ''y_train'')
    \<Longrightarrow> requiredInputViolation n conns = Some (PipelineValidationError (msg_model_inputs (label n)))"
  by (auto simp: requiredInputViolation_def Let_def list_ex_iff)

lemma orphanedNodes_iff:
  "n \<in> set (orphanedNodes ns conns) \<longleftrightarrow>
     n \<in> set ns \<and> kind n \<noteq> ''dataLoader''
     \<and> (\<forall>c \<in> set conns. source c \<noteq> node_id n \<and> target c \<noteq> node_id n)"
  by (auto simp: orphanedNodes_def connectedNodes_def)

lemma generatePythonCode_Inr:
  "generatePythonCode e g = Inr code \<Longrightarrow>
     validatePipelineStructure (mlNodesOf g) (connections g) = Inr ()
     \<and> code = compileValidated e (mlNodesOf g) (connections g)"
  by (auto simp: generatePythonCode_def Let_def split: if_splits sum.splits)

lemma generatePythonCode_invalid:
  "validatePipelineStructure (mlNodesOf g) (connections g) = Inl err \<Longrightarrow>
     (\<exists>err'. generatePythonCode e g = Inl err')
     \<and> (mlNodesOf g \<noteq> [] \<longrightarrow> generatePythonCode e g = Inl err)"
  by (auto simp: generatePythonCode_def Let_def mlNodesOf_def)

lemma validate_trainer_fails:
  assumes n: "n \<in> set ns"
    and k: "kind n \<in> {''classifier'', ''regressor'', ''neuralNet''}"
    and miss: "\<not> (\<exists>c \<in> set conns. target c = node_id n \<and> targetInput c = ''X_train'')
        \<or> \<not> (\<exists>c \<in> set conns. target c = node_id n \<and> targetInput c = ''y_train'')"
  shows "\<exists>err. validatePipelineStructure ns conns = Inl err"
proof -
  from requiredInputViolation_trainer [OF k miss] n
  have "\<not> (\<forall>m \<in> set ns. requiredInputViolation m conns = None)" by auto
  then have "checkRequiredInputs ns conns \<noteq> Inr ()" by (simp add: checkRequiredInputs_ok)
  then obtain err where "checkRequiredInputs ns conns = Inl err"
    by (cases "checkRequiredInputs ns conns") auto
  then show ?thesis by (auto simp: validatePipelineStructure_def)
qed

lemma msg_model_inputs_names:
  "sublist lbl (msg_model_inputs lbl) \<and> sublist ''X_train'' (msg_model_inputs lbl)
   \<and> sublist ''y_train'' (msg_model_inputs lbl)"
proof -
  have "sublist lbl (msg_model_inputs lbl)"
    unfolding msg_model_inputs_def by (rule sublist_append_rightI)
  moreover have "sublist ''X_train'' (msg_model_inputs lbl)"
    unfolding msg_model_inputs_def sublist_def
    by (rule exI [of _ "lbl @ '': '' @ ko_model_node"],
        rule exI [of _ "ko_and @ ''y_train'' @ ko_both_required"]) simp
  moreover have "sublist ''y_train'' (msg_model_inputs lbl)"
    unfolding msg_model_inputs_def sublist_def
    by (rule exI [of _ "lbl @ '': '' @ ko_model_node @ ''X_train'' @ ko_and"],
        rule exI [of _ "ko_both_required"]) simp
  ultimately show ?thesis by blast
qed

section \<open>Properties of the code generator\<close>

lemma isNotice_missingTrainingInputs:
  "what \<in> {''feature selection node'', ''classifier node'', ''regressor node'',
              ''neural network node'', ''hyperparameter tuning node''}
    \<Longrightarrow> isNotice (missingTrainingInputs hx hy what)"
  by (cases hx; cases hy)
     (auto simp: missingTrainingInputs_def nl_def isNotice_def isCommentLine_def)

lemma isNotice_evaluateNeedsInputs: "isNotice evaluateNeedsInputs"
  by (simp add: evaluateNeedsInputs_def unlines_def nl_def isNotice_def isCommentLine_def)

lemma isNotice_evaluateNeedsYTest: "isNotice evaluateNeedsYTest"
  by (simp add: evaluateNeedsYTest_def unlines_def nl_def isNotice_def isCommentLine_def)

lemma missingTrainingInputs_names:
  "(\<not> hx \<longrightarrow> sublist ''#   - X_train input not connected'' (missingTrainingInputs hx hy what))
   \<and> (\<not> hy \<longrightarrow> sublist ''#   - y_train input not connected'' (missingTrainingInputs hx hy what))"
proof -
  have a: "sublist ''#   - X_train input not connected'' (missingTrainingInputs hx hy what)" if "\<not> hx"
    unfolding sublist_def missingTrainingInputs_def using that
    by (intro exI [of _ "''# WARNING: Missing required connections!'' @ nl"]
              exI [of _ "nl @ (if \<not> hy then ''#   - y_train input not connected'' @ nl else [])
                           @ ''# Please connect training data to this '' @ what"]) simp
  have b: "sublist ''#   - y_train input not connected'' (missingTrainingInputs hx hy what)" if "\<not> hy"
    unfolding sublist_def missingTrainingInputs_def using that
    by (intro exI [of _ "''# WARNING: Missing required connections!'' @ nl
                           @ (if \<not> hx then ''#   - X_train input not connected'' @ nl else [])"]
              exI [of _ "nl @ ''# Please connect training data to this '' @ what"]) simp
  from a b show ?thesis by blast
qed

lemma featureSelection_missing:
  "findConn conns (node_id node) ''X_train'' = None \<or> findConn conns (node_id node) ''y_train'' = None
    \<Longrightarrow> nodeToCode_featureSelection e node conns varName
        = missingTrainingInputs (findConn conns (node_id node) ''X_train'' \<noteq> None)
            (findConn conns (node_id node) ''y_train'' \<noteq> None) ''feature selection node''"
  by (cases "findConn conns (node_id node) ''X_train''";
      cases "findConn conns (node_id node) ''y_train''")
     (simp_all add: nodeToCode_featureSelection_def Let_def)

lemma classifier_missing:
  "findConn conns (node_id node) ''X_train'' = None \<or> findConn conns (node_id node) ''y_train'' = None
    \<Longrightarrow> nodeToCode_classifier e node conns
        = missingTrainingInputs (findConn conns (node_id node) ''X_train'' \<noteq> None)
            (findConn conns (node_id node) ''y_train'' \<noteq> None) ''classifier node''"
  by (cases "findConn conns (node_id node) ''X_train''";
      cases "findConn conns (node_id node) ''y_train''")
     (simp_all add: nodeToCode_classifier_def Let_def)

lemma regressor_missing:
  "findConn conns (node_id node) ''X_train'' = None \<or> findConn conns (node_id node) ''y_train'' = None
    \<Longrightarrow> nodeToCode_regressor e node conns
        = missingTrainingInputs (findConn conns (node_id node) ''X_train'' \<noteq> None)
            (findConn conns (node_id node) ''y_train'' \<noteq> None) ''regressor node''"
  by (cases "findConn conns (node_id node) ''X_train''";
      cases "findConn conns (node_id node) ''y_train''")
     (simp_all add: nodeToCode_regressor_def Let_def)

lemma neuralNet_missing:
  "findConn conns (node_id node) ''X_train'' = None \<or> findConn conns (node_id node) ''y_train'' = None
    \<Longrightarrow> nodeToCode_neuralNet e node conns
        = missingTrainingInputs (findConn conns (node_id node) ''X_train'' \<noteq> None)
            (findConn conns (node_id node) ''y_train'' \<noteq> None) ''neural network node''"
  by (cases "findConn conns (node_id node) ''X_train''";
      cases "findConn conns (node_id node) ''y_train''")
     (simp_all add: nodeToCode_neuralNet_def Let_def)

lemma hyperparamTune_missing:
  "findConn conns (node_id node) ''X_train'' = None \<or> findConn conns (node_id node) ''y_train'' = None
    \<Longrightarrow> nodeToCode_hyperparamTune node conns
        = missingTrainingInputs (findConn conns (node_id node) ''X_train'' \<noteq> None)
            (findConn conns (node_id node) ''y_train'' \<noteq> None) ''hyperparameter tuning node''"
  by (cases "findConn conns (node_id node) ''X_train''";
      cases "findConn conns (node_id node) ''y_train''")
     (simp_all add: nodeToCode_hyperparamTune_def)

lemma predict_missing:
  "findConn conns (node_id node) ''model'' = None \<or> findConn conns (node_id node) ''X_test'' = None
    \<Longrightarrow> isNotice (nodeToCode_predict node conns)"
  by (cases "findConn conns (node_id node) ''model''";
      cases "findConn conns (node_id node) ''X_test''")
     (simp_all add: nodeToCode_predict_def nl_def isNotice_def isCommentLine_def)

lemma evaluate_missing:
  "(findConn conns (node_id node) ''prediction'' = None
      \<and> (findConn conns (node_id node) ''model'' = None
          \<or> findConn conns (node_id node) ''X_test'' = None))
    \<or> findConn conns (node_id node) ''y_test'' = None
    \<Longrightarrow> isNotice (nodeToCode_evaluate node conns nodeMap)"
  by (cases "findConn conns (node_id node) ''y_test''")
     (auto simp: nodeToCode_evaluate_def Let_def isNotice_evaluateNeedsInputs
        isNotice_evaluateNeedsYTest)

lemma training_kind_missing:
  assumes k: "kind node \<in> {''featureSelection'', ''classifier'', ''regressor'', ''neuralNet'',
                            ''hyperparamTune''}"
    and m: "findConn conns (node_id node) ''X_train'' = None
            \<or> findConn conns (node_id node) ''y_train'' = None"
  shows "\<exists>what \<in> {''feature selection node'', ''classifier node'', ''regressor node'',
                    ''neural network node'', ''hyperparameter tuning node''}.
           nodeToCode e node conns nodeMap varName varNameMap
             = missingTrainingInputs (findConn conns (node_id node) ''X_train'' \<noteq> None)
                 (findConn conns (node_id node) ''y_train'' \<noteq> None) what"
proof -
  from k consider "kind node = ''featureSelection''" | "kind node = ''classifier''"
    | "kind node = ''regressor''" | "kind node = ''neuralNet''" | "kind node = ''hyperparamTune''"
    by auto
  then show ?thesis
  proof cases
    case 1
    then show ?thesis using featureSelection_missing [OF m, of e varName]
      by (simp add: nodeToCode_def)
  next
    case 2
    then show ?thesis using classifier_missing [OF m, of e] by (simp add: nodeToCode_def)
  next
    case 3
    then show ?thesis using regressor_missing [OF m, of e] by (simp add: nodeToCode_def)
  next
    case 4
    then show ?thesis using neuralNet_missing [OF m, of e] by (simp add: nodeToCode_def)
  next
    case 5
    then show ?thesis using hyperparamTune_missing [OF m] by (simp add: nodeToCode_def)
  qed
qed

text \<open>The kinds that look at their connections first: a featureSelection, classifier,
  regressor, neuralNet or hyperparamTune node without a connection into \<open>X_train\<close> or
  \<open>y_train\<close>, a predict node without \<open>model\<close> or \<open>X_test\<close>, and an evaluate node
  without \<open>y_test\<close> or with neither \<open>prediction\<close> nor both \<open>model\<close> and \<open>X_test\<close>, emit
  comment lines only.\<close>

lemma required_inputs_notice:
  "(kind node \<in> {''featureSelection'', ''classifier'', ''regressor'', ''neuralNet'',
                  ''hyperparamTune''}
    \<and> (findConn conns (node_id node) ''X_train'' = None
        \<or> findConn conns (node_id node) ''y_train'' = None) \<longrightarrow>
      isNotice (nodeToCode e node conns nodeMap varName varNameMap)
      \<and> (findConn conns (node_id node) ''X_train'' = None \<longrightarrow>
           sublist ''#   - X_train input not connected''
             (nodeToCode e node conns nodeMap varName varNameMap))
      \<and> (findConn conns (node_id node) ''y_train'' = None \<longrightarrow>
           sublist ''#   - y_train input not connected''
             (nodeToCode e node conns nodeMap varName varNameMap)))
   \<and> (kind node = ''predict''
      \<and> (findConn conns (node_id node) ''model'' = None
          \<or> findConn conns (node_id node) ''X_test'' = None) \<longrightarrow>
      isNotice (nodeToCode e node conns nodeMap varName varNameMap))
   \<and> (kind node = ''evaluate''
      \<and> ((findConn conns (node_id node) ''prediction'' = None
           \<and> (findConn conns (node_id node) ''model'' = None
               \<or> findConn conns (node_id node) ''X_test'' = None))
          \<or> findConn conns (node_id node) ''y_test'' = None) \<longrightarrow>
      isNotice (nodeToCode e node conns nodeMap varName varNameMap))"
proof -
  let ?code = "nodeToCode e node conns nodeMap varName varNameMap"
  have a: "isNotice ?code
      \<and> (findConn conns (node_id node) ''X_train'' = None \<longrightarrow>
           sublist ''#   - X_train input not connected'' ?code)
      \<and> (findConn conns (node_id node) ''y_train'' = None \<longrightarrow>
           sublist ''#   - y_train input not connected'' ?code)"
    if k: "kind node \<in> {''featureSelection'', ''classifier'', ''regressor'', ''neuralNet'',
                          ''hyperparamTune''}"
      and m: "findConn conns (node_id node) ''X_train'' = None
              \<or> findConn conns (node_id node) ''y_train'' = None"
  proof -
    from training_kind_missing [OF k m, of e nodeMap varName varNameMap] obtain what where
      w: "what \<in> {''feature selection node'', ''classifier node'', ''regressor node'',
                   ''neural network node'', ''hyperparameter tuning node''}"
      and c: "?code = missingTrainingInputs (findConn conns (node_id node) ''X_train'' \<noteq> None)
                 (findConn conns (node_id node) ''y_train'' \<noteq> None) what"
      by blast
    from isNotice_missingTrainingInputs [OF w] c have "isNotice ?code" by simp
    moreover from missingTrainingInputs_names
        [of "findConn conns (node_id node) ''X_train'' \<noteq> None"
            "findConn conns (node_id node) ''y_train'' \<noteq> None" what] c
    have "(findConn conns (node_id node) ''X_train'' = None \<longrightarrow>
             sublist ''#   - X_train input not connected'' ?code)
          \<and> (findConn conns (node_id node) ''y_train'' = None \<longrightarrow>
             sublist ''#   - y_train input not connected'' ?code)"
      by simp
    ultimately show ?thesis by blast
  qed
  have b: "isNotice ?code"
    if "kind node = ''predict''"
      and "findConn conns (node_id node) ''model'' = None
           \<or> findConn conns (node_id node) ''X_test'' = None"
    using predict_missing [OF that(2)] that(1) by (simp add: nodeToCode_def)
  have c: "isNotice ?code"
    if "kind node = ''evaluate''"
      and "(findConn conns (node_id node) ''prediction'' = None
           \<and> (findConn conns (node_id node) ''model'' = None
               \<or> findConn conns (node_id node) ''X_test'' = None))
          \<or> findConn conns (node_id node) ''y_test'' = None"
    using evaluate_missing [OF that(2), of nodeMap] that(1) by (simp add: nodeToCode_def)
  from a b c show ?thesis by blast
qed

section \<open>The metric calls of the evaluation templates\<close>















section \<open>Cycles and the validation before code generation (C1)\<close>

text \<open>
  C1 does not hold of the code: \<open>validatePipelineStructure\<close>, the only validation that
  \<open>generatePythonCode\<close> runs, has no cycle check. On \<open>cyclicGraph\<close>, whose scalers A and B
  feed each other, it accepts, \<open>topologicalSort\<close> is run and returns the loader alone, and
  \<open>generatePythonCode\<close> returns code instead of an error.
\<close>

theorem cycle_passes_validation:
  "(''A'', ''B'') \<in> edgesOf (connections cyclicGraph)
   \<and> (''B'', ''A'') \<in> edgesOf (connections cyclicGraph)
   \<and> \<not> acyclic (edgesOf (connections cyclicGraph))
   \<and> validatePipelineStructure (mlNodesOf cyclicGraph) (connections cyclicGraph) = Inr ()
   \<and> topologicalSort (mlNodesOf cyclicGraph) (connections cyclicGraph)
       = [exNode ''L'' ''dataLoader'' []]
   \<and> generatePythonCode e cyclicGraph
       = Inr (compileValidated e (mlNodesOf cyclicGraph) (connections cyclicGraph))"
proof -
  have ab: "(''A'', ''B'') \<in> edgesOf (connections cyclicGraph)"
    by (simp add: edgesOf_def cyclicGraph_def exConn_def)
  have ba: "(''B'', ''A'') \<in> edgesOf (connections cyclicGraph)"
    by (simp add: edgesOf_def cyclicGraph_def exConn_def)
  from ab ba have "(''A'', ''A'') \<in> (edgesOf (connections cyclicGraph))\<^sup>+"
    by (rule trancl_into_trancl [OF r_into_trancl])
  then have cyc: "\<not> acyclic (edgesOf (connections cyclicGraph))"
    unfolding acyclic_def by blast
  have v: "validatePipelineStructure (mlNodesOf cyclicGraph) (connections cyclicGraph) = Inr ()"
    by (simp add: cyclicGraph_def example_defs validate_eval)
  have t: "topologicalSort (mlNodesOf cyclicGraph) (connections cyclicGraph)
             = [exNode ''L'' ''dataLoader'' []]"
    by (simp add: cyclicGraph_def example_defs topo_eval)
  have g: "generatePythonCode e cyclicGraph
             = Inr (compileValidated e (mlNodesOf cyclicGraph) (connections cyclicGraph))"
    unfolding generatePythonCode_def Let_def using v
    by (simp add: cyclicGraph_def example_defs)
  from ab ba cyc v t g show ?thesis by (intro conjI)
qed

section \<open>The schedule of an acyclic graph (C2)\<close>

lemma chain_schedule:
  assumes "distinct [node_id a, node_id b, node_id c]"
    and "source ab = node_id a" "target ab = node_id b"
    and "source bc = node_id b" "target bc = node_id c"
  shows "topologicalSort [c, a, b] [ab, bc] = [a, b, c]"
proof -
  from assms(1) have ne: "node_id a \<noteq> node_id b" "node_id b \<noteq> node_id a"
    "node_id a \<noteq> node_id c" "node_id c \<noteq> node_id a"
    "node_id b \<noteq> node_id c" "node_id c \<noteq> node_id b" by auto
  show ?thesis using ne assms(2-) by (simp add: topo_eval)
qed

lemma independent_schedule:
  assumes "node_id x \<noteq> node_id y"
  shows "topologicalSort [x, y] [] = [x, y]"
proof -
  from assms have ne: "node_id y \<noteq> node_id x" by simp
  show ?thesis using assms ne by (simp add: topo_eval)
qed

lemma chain_wellFormed: "wellFormed chainNodes chainConns"
  by (simp add: wellFormed_def chainNodes_def chainConns_def exNode_def exConn_def)

lemma chain_acyclic: "acyclic (edgesOf chainConns)"
proof (rule acyclicI_order)
  fix a b assume "(a, b) \<in> edgesOf chainConns"
  then show "(if b = ''A'' then 3 else if b = ''B'' then 2 else (1::nat))
              < (if a = ''A'' then 3 else if a = ''B'' then 2 else 1)"
    by (auto simp: edgesOf_def chainConns_def exConn_def)
qed

text \<open>
  C2. On an acyclic graph (node ids distinct, every connection between nodes of the graph)
  \<open>topologicalSort\<close> returns a permutation of the nodes in which the source of every
  connection comes before its target. The queue is seeded with the nodes of in-degree zero
  in insertion order and is first-in first-out, so these nodes open the schedule in that
  order. A chain A \<open>\<rightarrow>\<close> B \<open>\<rightarrow>\<close> C whose nodes were inserted as C, A, B is scheduled as
  A, B, C, and two nodes without connections keep their insertion order.
\<close>

theorem topologicalSort_acyclic_schedule:
  "(wellFormed ns conns \<and> acyclic (edgesOf conns) \<longrightarrow>
      mset (topologicalSort ns conns) = mset ns
      \<and> (\<forall>conn \<in> set conns.
            precedes (source conn) (target conn) (map node_id (topologicalSort ns conns)))
      \<and> prefix (filter (\<lambda>v. inDegreeOf conns v = 0) (map node_id ns))
           (map node_id (topologicalSort ns conns)))
   \<and> (distinct [node_id a, node_id b, node_id c]
       \<and> source ab = node_id a \<and> target ab = node_id b
       \<and> source bc = node_id b \<and> target bc = node_id c \<longrightarrow>
      topologicalSort [c, a, b] [ab, bc] = [a, b, c])
   \<and> (node_id x \<noteq> node_id y \<longrightarrow> topologicalSort [x, y] [] = [x, y])"
  using topologicalSort_schedule [of ns conns] chain_schedule [of a b c ab bc]
    independent_schedule [of x y]
  by blast

theorem topologicalSort_acyclic_schedule_witness:
  "wellFormed chainNodes chainConns \<and> acyclic (edgesOf chainConns)
   \<and> mset (topologicalSort chainNodes chainConns) = mset chainNodes
   \<and> precedes ''A'' ''B'' (map node_id (topologicalSort chainNodes chainConns))
   \<and> precedes ''B'' ''C'' (map node_id (topologicalSort chainNodes chainConns))
   \<and> prefix [''A''] (map node_id (topologicalSort chainNodes chainConns))
   \<and> topologicalSort chainNodes chainConns
       = [exNode ''A'' ''dataLoader'' [], exNode ''B'' ''dataSplit'' [], exNode ''C'' ''scaler'' []]
   \<and> topologicalSort [exNode ''X'' ''dataLoader'' [], exNode ''Y'' ''dataLoader'' []] []
       = [exNode ''X'' ''dataLoader'' [], exNode ''Y'' ''dataLoader'' []]"
proof -
  let ?a = "exNode ''A'' ''dataLoader'' []" and ?b = "exNode ''B'' ''dataSplit'' []"
    and ?c = "exNode ''C'' ''scaler'' []"
  let ?ab = "exConn ''A'' ''data'' ''B'' ''data''" and ?bc = "exConn ''B'' ''X_train'' ''C'' ''X_train''"
  let ?x = "exNode ''X'' ''dataLoader'' []" and ?y = "exNode ''Y'' ''dataLoader'' []"
  note inst = topologicalSort_acyclic_schedule [of chainNodes chainConns ?a ?b ?c ?ab ?bc ?x ?y]
  have h1: "wellFormed chainNodes chainConns \<and> acyclic (edgesOf chainConns)"
    using chain_wellFormed chain_acyclic by simp
  have h2: "distinct [node_id ?a, node_id ?b, node_id ?c]
            \<and> source ?ab = node_id ?a \<and> target ?ab = node_id ?b
            \<and> source ?bc = node_id ?b \<and> target ?bc = node_id ?c"
    by (simp add: exNode_def exConn_def)
  have h3: "node_id ?x \<noteq> node_id ?y" by (simp add: exNode_def)
  from inst h1 have m: "mset (topologicalSort chainNodes chainConns) = mset chainNodes"
    and p: "\<forall>conn \<in> set chainConns.
              precedes (source conn) (target conn) (map node_id (topologicalSort chainNodes chainConns))"
    and q: "prefix (filter (\<lambda>v. inDegreeOf chainConns v = 0) (map node_id chainNodes))
              (map node_id (topologicalSort chainNodes chainConns))"
    by blast+
  from p have p1: "precedes ''A'' ''B'' (map node_id (topologicalSort chainNodes chainConns))"
    and p2: "precedes ''B'' ''C'' (map node_id (topologicalSort chainNodes chainConns))"
    by (simp_all add: chainConns_def exConn_def)
  have "filter (\<lambda>v. inDegreeOf chainConns v = 0) (map node_id chainNodes) = [''A'']"
    by (simp add: inDegreeOf_def chainConns_def chainNodes_def exNode_def exConn_def)
  with q have q1: "prefix [''A''] (map node_id (topologicalSort chainNodes chainConns))" by simp
  from inst h2 have c: "topologicalSort [?c, ?a, ?b] [?ab, ?bc] = [?a, ?b, ?c]" by blast
  from inst h3 have i: "topologicalSort [?x, ?y] [] = [?x, ?y]" by blast
  from h1 m p1 p2 q1 c i show ?thesis by (simp add: chainNodes_def chainConns_def)
qed

section \<open>Unconnected inputs (C3)\<close>

text \<open>
  C3 does not hold of the code: an input without a connection is resolved by
  \<open>getSourceVarName\<close> and \<open>getSourceOutputVar\<close> to the name \<open>data\<close>, and the scaler emits
  code with it. In \<open>placeholderGraph\<close> the \<open>X_train\<close> input of the scaler Z has no
  connection. The graph passes \<open>validatePipelineStructure\<close>, \<open>generatePythonCode\<close> returns
  code, the schedule is L, S, Z, and the block of Z, the last of the generated blocks, is
  not a notice: it fits the scaler on \<open>data\<close>, a name that no connection of Z gives it. A
  featureSelection node in the place of Z, with the same connections, emits the notice.
\<close>

theorem unconnected_input_gets_placeholder:
  \<open>findConn (connections placeholderGraph) ''Z'' ''X_train'' = None
   \<and> getSourceVarName [] varNameMap targetNodeId inputKey = ''data''
   \<and> getSourceOutputVar (connections placeholderGraph)
         (Some [(''L'', ''data''), (''S'', ''split''), (''Z'', ''scaler'')]) ''Z'' ''X_train''
       = ''data''
   \<and> validatePipelineStructure (mlNodesOf placeholderGraph) (connections placeholderGraph)
       = Inr ()
   \<and> generatePythonCode e placeholderGraph
       = Inr (compileValidated e (mlNodesOf placeholderGraph) (connections placeholderGraph))
   \<and> topologicalSort (mlNodesOf placeholderGraph) (connections placeholderGraph)
       = [exNode ''L'' ''dataLoader'' [], exNode ''S'' ''dataSplit'' [],
          exNode ''Z'' ''scaler'' []]
   \<and> assignVarNames [exNode ''L'' ''dataLoader'' [], exNode ''S'' ''dataSplit'' [],
                      exNode ''Z'' ''scaler'' []]
       = [(''L'', ''data''), (''S'', ''split''), (''Z'', ''scaler'')]
   \<and> last (codeBlocksOf e (mlNodesOf placeholderGraph) (connections placeholderGraph)
             (topologicalSort (mlNodesOf placeholderGraph) (connections placeholderGraph)))
       = unlines
          [''# Scale Features (Train and Test)'',
           ''scaler = StandardScaler()'',
           ''scaler_X_train = scaler.fit_transform(data)'',
           ''scaler_X_test = scaler.transform(split_X_test)'',
           ''print("Features scaled using StandardScaler")'',
           ''print(f"Scaled train shape: {scaler_X_train.shape}")'',
           ''print(f"Scaled test shape: {scaler_X_test.shape}")'']
   \<and> \<not> isNotice
         (last (codeBlocksOf e (mlNodesOf placeholderGraph) (connections placeholderGraph)
                 (topologicalSort (mlNodesOf placeholderGraph) (connections placeholderGraph))))
   \<and> nodeToCode e (exNode ''Z'' ''featureSelection'' []) (connections placeholderGraph)
         (nodeMapOf (mlNodesOf placeholderGraph)) ''feature''
         (Some [(''L'', ''data''), (''S'', ''split''), (''Z'', ''feature'')])
       = unlines
          [''# WARNING: Missing required connections!'',
           ''#   - X_train input not connected'',
           ''#   - y_train input not connected'',
           ''# Please connect training data to this feature selection node'']\<close>
proof -
  let ?L = "exNode ''L'' ''dataLoader'' []" and ?S = "exNode ''S'' ''dataSplit'' []"
    and ?Z = "exNode ''Z'' ''scaler'' []"
  let ?ns = "mlNodesOf placeholderGraph" and ?cs = "connections placeholderGraph"
  let ?vm = "[(''L'', ''data''), (''S'', ''split''), (''Z'', ''scaler'')]"
  let ?block = \<open>unlines
          [''# Scale Features (Train and Test)'',
           ''scaler = StandardScaler()'',
           ''scaler_X_train = scaler.fit_transform(data)'',
           ''scaler_X_test = scaler.transform(split_X_test)'',
           ''print("Features scaled using StandardScaler")'',
           ''print(f"Scaled train shape: {scaler_X_train.shape}")'',
           ''print(f"Scaled test shape: {scaler_X_test.shape}")'']\<close>
  have f: "findConn ?cs ''Z'' ''X_train'' = None"
    by (simp add: findConn_def placeholderGraph_def exConn_def)
  have g1: "getSourceVarName [] varNameMap targetNodeId inputKey = ''data''"
    by (simp add: getSourceVarName_def findConn_def)
  have g2: "getSourceOutputVar ?cs (Some ?vm) ''Z'' ''X_train'' = ''data''"
    using f by (simp add: getSourceOutputVar_def)
  have v: "validatePipelineStructure ?ns ?cs = Inr ()"
    by (simp add: placeholderGraph_def example_defs validate_eval)
  have g: "generatePythonCode e placeholderGraph = Inr (compileValidated e ?ns ?cs)"
    unfolding generatePythonCode_def Let_def using v
    by (simp add: placeholderGraph_def example_defs)
  have t: "topologicalSort ?ns ?cs = [?L, ?S, ?Z]"
    by (simp add: placeholderGraph_def example_defs topo_eval)
  have a: "assignVarNames [?L, ?S, ?Z] = ?vm"
    by (simp add: assignVarNames_def assignVarName_def getSimpleVarName_def kindMap_def
        exNode_def Let_def)
  have z: "nodeToCode e ?Z ?cs (nodeMapOf ?ns) ''scaler'' (Some ?vm) = ?block"
    by (simp add: nodeToCode_def nodeToCode_scaler_def getSourceOutputVar_def findConn_def
        sourceVarNameOf_def placeholderGraph_def exNode_def exConn_def control_def orElse_def
        Let_def)
  have vz: "varNameFor ?vm ?Z = ''scaler''"
    by (simp add: varNameFor_def exNode_def)
  have b: "last (codeBlocksOf e ?ns ?cs (topologicalSort ?ns ?cs)) = ?block"
    unfolding t codeBlocksOf_def Let_def a using z vz by simp
  have n: "\<not> isNotice ?block"
    by (simp add: unlines_def nl_def isNotice_def isCommentLine_def)
  have s: \<open>nodeToCode e (exNode ''Z'' ''featureSelection'' []) ?cs (nodeMapOf ?ns) ''feature''
             (Some [(''L'', ''data''), (''S'', ''split''), (''Z'', ''feature'')])
           = unlines
              [''# WARNING: Missing required connections!'',
               ''#   - X_train input not connected'',
               ''#   - y_train input not connected'',
               ''# Please connect training data to this feature selection node'']\<close>
    by (simp add: nodeToCode_def nodeToCode_featureSelection_def missingTrainingInputs_def
        findConn_def placeholderGraph_def exNode_def exConn_def unlines_def Let_def)
  from n b have n': "\<not> isNotice (last (codeBlocksOf e ?ns ?cs (topologicalSort ?ns ?cs)))"
    by simp
  from f g1 g2 v g t a b n' s show ?thesis by (intro conjI)
qed

section \<open>Failed validation generates nothing (C4)\<close>

lemma msg_neq1: "msg_no_dataLoader \<noteq> msg_model_inputs ''C''"
  by (simp add: msg_no_dataLoader_def msg_model_inputs_def ko_in_pipeline_def)

lemma msg_neq2: "msg_model_inputs ''C'' \<noteq> msg_model_inputs ''R''"
  by (simp add: msg_model_inputs_def)

text \<open>
  C4, as the claim states it, fails: it promises, for every trainer node that lacks
  \<open>X_train\<close> or \<open>y_train\<close>, the error that names this node. The validation stops at
  the first violation: without a loader the error is the missing-loader one, and of two
  offending trainers only the first in node order is named.
\<close>

theorem gate_counterexample:
  "exNode ''C'' ''classifier'' [] \<in> set (nodes noLoaderGraph)
   \<and> \<not> list_ex (\<lambda>c. target c = ''C'' \<and> targetInput c = ''y_train'') (connections noLoaderGraph)
   \<and> generatePythonCode exEnv noLoaderGraph = Inl (PipelineValidationError msg_no_dataLoader)
   \<and> generatePythonCode exEnv noLoaderGraph
       \<noteq> Inl (PipelineValidationError (msg_model_inputs (label (exNode ''C'' ''classifier'' []))))
   \<and> exNode ''R'' ''regressor'' [] \<in> set (nodes twoOffendersGraph)
   \<and> \<not> list_ex (\<lambda>c. target c = ''R'' \<and> targetInput c = ''y_train'') (connections twoOffendersGraph)
   \<and> generatePythonCode exEnv twoOffendersGraph
       = Inl (PipelineValidationError (msg_model_inputs ''C''))
   \<and> generatePythonCode exEnv twoOffendersGraph
       \<noteq> Inl (PipelineValidationError (msg_model_inputs (label (exNode ''R'' ''regressor'' []))))"
proof -
  have a: "generatePythonCode exEnv noLoaderGraph = Inl (PipelineValidationError msg_no_dataLoader)"
    by (simp add: generatePythonCode_def noLoaderGraph_def example_defs validate_eval)
  have b: "generatePythonCode exEnv twoOffendersGraph
             = Inl (PipelineValidationError (msg_model_inputs ''C''))"
    by (simp add: generatePythonCode_def twoOffendersGraph_def example_defs validate_eval)
  have c: "exNode ''C'' ''classifier'' [] \<in> set (nodes noLoaderGraph)
           \<and> \<not> list_ex (\<lambda>c. target c = ''C'' \<and> targetInput c = ''y_train'') (connections noLoaderGraph)"
    by (simp add: noLoaderGraph_def exNode_def exConn_def)
  have d: "exNode ''R'' ''regressor'' [] \<in> set (nodes twoOffendersGraph)
           \<and> \<not> list_ex (\<lambda>c. target c = ''R'' \<and> targetInput c = ''y_train'') (connections twoOffendersGraph)"
    by (simp add: twoOffendersGraph_def exNode_def exConn_def)
  have l: "label (exNode ''C'' ''classifier'' []) = ''C''" "label (exNode ''R'' ''regressor'' []) = ''R''"
    by (simp_all add: exNode_def)
  from a b c d msg_neq1 msg_neq2 show ?thesis by (simp add: l)
qed

text \<open>
  C4, amended. When the validation fails, \<open>generatePythonCode\<close> returns an error and no
  code (with the error of the validation, when there is an ML node); a script is returned
  only when the validation passed. For a classifier, regressor or neuralNet node that
  lacks a connection into \<open>X_train\<close> or \<open>y_train\<close> an error is always returned and nothing
  is generated; it is the error naming this node when the loader and the orphan checks pass
  and no earlier node violates the required inputs. Its message holds the label of the
  node and the names of both inputs.
\<close>

theorem gate_aborts:
  "(validatePipelineStructure (mlNodesOf g) (connections g) = Inl err \<longrightarrow>
      (\<exists>err'. generatePythonCode e g = Inl err')
      \<and> (mlNodesOf g \<noteq> [] \<longrightarrow> generatePythonCode e g = Inl err))
   \<and> (generatePythonCode e g = Inr code \<longrightarrow>
        validatePipelineStructure (mlNodesOf g) (connections g) = Inr ()
        \<and> code = compileValidated e (mlNodesOf g) (connections g))
   \<and> (n \<in> set (nodes g) \<and> kind n \<in> {''classifier'', ''regressor'', ''neuralNet''}
       \<and> (\<not> (\<exists>c \<in> set (connections g). target c = node_id n \<and> targetInput c = ''X_train'')
          \<or> \<not> (\<exists>c \<in> set (connections g). target c = node_id n \<and> targetInput c = ''y_train''))
       \<longrightarrow>
        (\<exists>err'. generatePythonCode e g = Inl err')
        \<and> (hasDataLoader (mlNodesOf g) \<and> orphanedNodes (mlNodesOf g) (connections g) = []
            \<and> mlNodesOf g = pre @ n # post
            \<and> (\<forall>m \<in> set pre. requiredInputViolation m (connections g) = None) \<longrightarrow>
             generatePythonCode e g = Inl (PipelineValidationError (msg_model_inputs (label n)))))
   \<and> sublist lbl (msg_model_inputs lbl) \<and> sublist ''X_train'' (msg_model_inputs lbl)
   \<and> sublist ''y_train'' (msg_model_inputs lbl)"
proof -
  have a: "validatePipelineStructure (mlNodesOf g) (connections g) = Inl err \<longrightarrow>
      (\<exists>err'. generatePythonCode e g = Inl err')
      \<and> (mlNodesOf g \<noteq> [] \<longrightarrow> generatePythonCode e g = Inl err)"
    using generatePythonCode_invalid [of g err e] by blast
  have b: "generatePythonCode e g = Inr code \<longrightarrow>
        validatePipelineStructure (mlNodesOf g) (connections g) = Inr ()
        \<and> code = compileValidated e (mlNodesOf g) (connections g)"
    using generatePythonCode_Inr [of e g code] by blast
  have c: "(\<exists>err'. generatePythonCode e g = Inl err')
        \<and> (hasDataLoader (mlNodesOf g) \<and> orphanedNodes (mlNodesOf g) (connections g) = []
            \<and> mlNodesOf g = pre @ n # post
            \<and> (\<forall>m \<in> set pre. requiredInputViolation m (connections g) = None) \<longrightarrow>
             generatePythonCode e g = Inl (PipelineValidationError (msg_model_inputs (label n))))"
    if n: "n \<in> set (nodes g)"
      and k: "kind n \<in> {''classifier'', ''regressor'', ''neuralNet''}"
      and miss: "\<not> (\<exists>c \<in> set (connections g). target c = node_id n \<and> targetInput c = ''X_train'')
          \<or> \<not> (\<exists>c \<in> set (connections g). target c = node_id n \<and> targetInput c = ''y_train'')"
  proof -
    from n k have ml: "n \<in> set (mlNodesOf g)" by (auto simp: mlNodesOf_def mlKinds_def)
    from validate_trainer_fails [OF ml k miss] obtain err0 where
      v: "validatePipelineStructure (mlNodesOf g) (connections g) = Inl err0" by blast
    from generatePythonCode_invalid [OF v, of e]
    have c1: "\<exists>err'. generatePythonCode e g = Inl err'" by blast
    have c2: "generatePythonCode e g = Inl (PipelineValidationError (msg_model_inputs (label n)))"
      if hd: "hasDataLoader (mlNodesOf g)" and no: "orphanedNodes (mlNodesOf g) (connections g) = []"
        and sp: "mlNodesOf g = pre @ n # post"
        and pr: "\<forall>m \<in> set pre. requiredInputViolation m (connections g) = None"
    proof -
      from checkRequiredInputs_first [OF pr requiredInputViolation_trainer [OF k miss], of post] sp
      have "checkRequiredInputs (mlNodesOf g) (connections g)
              = Inl (PipelineValidationError (msg_model_inputs (label n)))" by simp
      with hd no have "validatePipelineStructure (mlNodesOf g) (connections g)
              = Inl (PipelineValidationError (msg_model_inputs (label n)))"
        by (simp add: validatePipelineStructure_def)
      from generatePythonCode_invalid [OF this, of e] ml show ?thesis by auto
    qed
    from c1 c2 show ?thesis by blast
  qed
  from a b c msg_model_inputs_names [of lbl] show ?thesis by blast
qed

theorem gate_aborts_witness:
  "validatePipelineStructure (mlNodesOf missingLabelGraph) (connections missingLabelGraph)
     = Inl (PipelineValidationError (msg_model_inputs ''C''))
   \<and> generatePythonCode exEnv missingLabelGraph
       = Inl (PipelineValidationError (msg_model_inputs ''C''))
   \<and> generatePythonCode exEnv trainersGraph
       = Inr (compileValidated exEnv (mlNodesOf trainersGraph) (connections trainersGraph))
   \<and> validatePipelineStructure (mlNodesOf trainersGraph) (connections trainersGraph) = Inr ()"
proof -
  let ?L = "exNode ''L'' ''dataLoader'' []" and ?S = "exNode ''S'' ''dataSplit'' []"
    and ?C = "exNode ''C'' ''classifier'' []"
  let ?err = "PipelineValidationError (msg_model_inputs ''C'')"
  let ?code = "compileValidated exEnv (mlNodesOf trainersGraph) (connections trainersGraph)"
  have ml: "mlNodesOf missingLabelGraph = [?L, ?S] @ ?C # []"
    by (simp add: missingLabelGraph_def example_defs)
  have v: "validatePipelineStructure (mlNodesOf missingLabelGraph) (connections missingLabelGraph)
             = Inl ?err"
    by (simp add: missingLabelGraph_def example_defs validate_eval)
  have h3: "?C \<in> set (nodes missingLabelGraph)
            \<and> kind ?C \<in> {''classifier'', ''regressor'', ''neuralNet''}
            \<and> (\<not> (\<exists>c \<in> set (connections missingLabelGraph).
                     target c = node_id ?C \<and> targetInput c = ''X_train'')
               \<or> \<not> (\<exists>c \<in> set (connections missingLabelGraph).
                     target c = node_id ?C \<and> targetInput c = ''y_train''))"
    by (simp add: missingLabelGraph_def exNode_def exConn_def)
  have h4: "hasDataLoader (mlNodesOf missingLabelGraph)
            \<and> orphanedNodes (mlNodesOf missingLabelGraph) (connections missingLabelGraph) = []
            \<and> mlNodesOf missingLabelGraph = [?L, ?S] @ ?C # []
            \<and> (\<forall>m \<in> set [?L, ?S]. requiredInputViolation m (connections missingLabelGraph) = None)"
    by (simp add: missingLabelGraph_def example_defs validate_eval)
  note i1 = gate_aborts [of missingLabelGraph ?err exEnv _ ?C "[?L, ?S]" "[]"]
  have c3: "(\<exists>err'. generatePythonCode exEnv missingLabelGraph = Inl err')
        \<and> (hasDataLoader (mlNodesOf missingLabelGraph)
            \<and> orphanedNodes (mlNodesOf missingLabelGraph) (connections missingLabelGraph) = []
            \<and> mlNodesOf missingLabelGraph = [?L, ?S] @ ?C # []
            \<and> (\<forall>m \<in> set [?L, ?S]. requiredInputViolation m (connections missingLabelGraph) = None)
            \<longrightarrow> generatePythonCode exEnv missingLabelGraph
                 = Inl (PipelineValidationError (msg_model_inputs (label ?C))))"
    using i1 [THEN conjunct2, THEN conjunct2, THEN conjunct1] h3 by (rule mp)
  have "generatePythonCode exEnv missingLabelGraph
          = Inl (PipelineValidationError (msg_model_inputs (label ?C)))"
    using c3 [THEN conjunct2] h4 by (rule mp)
  then have g1: "generatePythonCode exEnv missingLabelGraph = Inl ?err"
    by (simp add: exNode_def)
  have v2: "validatePipelineStructure (mlNodesOf trainersGraph) (connections trainersGraph) = Inr ()"
    by (simp add: trainersGraph_def example_defs validate_eval)
  have g2: "generatePythonCode exEnv trainersGraph = Inr ?code"
    unfolding generatePythonCode_def Let_def using v2
    by (simp add: trainersGraph_def example_defs)
  from v g1 g2 v2 show ?thesis by blast
qed

section \<open>Order of the checks and orphans (C5)\<close>

text \<open>
  C5, as the claim states it, fails: it calls a node an orphan exactly when it is a
  non-entry node with no incoming edge. The scaler S below has no incoming edge, only an
  outgoing one, and is not reported; the validation passes.
\<close>

theorem orphan_counterexample:
  "exNode ''S'' ''scaler'' [] \<in> set outgoingOnlyNodes
   \<and> kind (exNode ''S'' ''scaler'' []) \<noteq> ''dataLoader''
   \<and> filter (\<lambda>c. target c = node_id (exNode ''S'' ''scaler'' [])) outgoingOnlyConns = []
   \<and> orphanedNodes outgoingOnlyNodes outgoingOnlyConns = []
   \<and> validatePipelineStructure outgoingOnlyNodes outgoingOnlyConns = Inr ()"
  by (simp add: outgoingOnlyNodes_def outgoingOnlyConns_def exNode_def exConn_def validate_eval)

text \<open>
  C5, amended. The validation runs the entry-kind check, then the orphan check, then the
  required-input check, and stops at the first check that fails with that one violation;
  the required-input check stops at the first node, in node order, that violates it (a
  dataSplit without an incoming connection, or a classifier, regressor or neuralNet
  without both \<open>X_train\<close> and \<open>y_train\<close>). A node is reported as an orphan exactly when
  it is not a loader and its id is neither the source nor the target of a connection; so
  every node with an incoming edge passes the orphan check.
\<close>

theorem validate_order:
  "(\<not> hasDataLoader ns \<longrightarrow>
      validatePipelineStructure ns conns = Inl (PipelineValidationError msg_no_dataLoader))
   \<and> (hasDataLoader ns \<and> orphanedNodes ns conns \<noteq> [] \<longrightarrow>
      validatePipelineStructure ns conns
        = Inl (PipelineValidationError
                (msg_orphaned (join '', '' (map label (orphanedNodes ns conns))))))
   \<and> (hasDataLoader ns \<and> orphanedNodes ns conns = [] \<longrightarrow>
      validatePipelineStructure ns conns = checkRequiredInputs ns conns)
   \<and> (checkRequiredInputs ns conns = Inr ()
        \<longleftrightarrow> (\<forall>m \<in> set ns. requiredInputViolation m conns = None))
   \<and> (ns = pre @ n # post \<and> (\<forall>m \<in> set pre. requiredInputViolation m conns = None)
       \<and> requiredInputViolation n conns = Some err \<longrightarrow>
      checkRequiredInputs ns conns = Inl err)
   \<and> (requiredInputViolation n conns = None \<longleftrightarrow>
        (kind n = ''dataSplit'' \<longrightarrow> (\<exists>c \<in> set conns. target c = node_id n))
        \<and> (kind n \<in> {''classifier'', ''regressor'', ''neuralNet''} \<longrightarrow>
             (\<exists>c \<in> set conns. target c = node_id n \<and> targetInput c = ''X_train'')
             \<and> (\<exists>c \<in> set conns. target c = node_id n \<and> targetInput c = ''y_train'')))
   \<and> (n \<in> set (orphanedNodes ns conns) \<longleftrightarrow>
        n \<in> set ns \<and> kind n \<noteq> ''dataLoader''
        \<and> (\<forall>c \<in> set conns. source c \<noteq> node_id n \<and> target c \<noteq> node_id n))
   \<and> ((\<exists>c \<in> set conns. target c = node_id n) \<longrightarrow> n \<notin> set (orphanedNodes ns conns))"
proof -
  have a: "\<not> hasDataLoader ns \<longrightarrow>
      validatePipelineStructure ns conns = Inl (PipelineValidationError msg_no_dataLoader)"
    by (simp add: validatePipelineStructure_def)
  have b: "hasDataLoader ns \<and> orphanedNodes ns conns \<noteq> [] \<longrightarrow>
      validatePipelineStructure ns conns
        = Inl (PipelineValidationError
                (msg_orphaned (join '', '' (map label (orphanedNodes ns conns)))))"
    by (simp add: validatePipelineStructure_def)
  have c: "hasDataLoader ns \<and> orphanedNodes ns conns = [] \<longrightarrow>
      validatePipelineStructure ns conns = checkRequiredInputs ns conns"
    by (simp add: validatePipelineStructure_def)
  have d: "ns = pre @ n # post \<and> (\<forall>m \<in> set pre. requiredInputViolation m conns = None)
       \<and> requiredInputViolation n conns = Some err \<longrightarrow>
      checkRequiredInputs ns conns = Inl err"
    using checkRequiredInputs_first [of pre conns n err post] by blast
  have f: "(\<exists>c \<in> set conns. target c = node_id n) \<longrightarrow> n \<notin> set (orphanedNodes ns conns)"
    using orphanedNodes_iff [of n ns conns] by blast
  show ?thesis
    using a b c d f checkRequiredInputs_ok [of ns conns] requiredInputViolation_None [of n conns]
      orphanedNodes_iff [of n ns conns]
    by (intro conjI)
qed

theorem validate_order_witness:
  "validatePipelineStructure gateNodes gateConns = Inl (PipelineValidationError msg_no_dataLoader)
   \<and> validatePipelineStructure (exNode ''L'' ''dataLoader'' [] # gateNodes) gateConns
       = Inl (PipelineValidationError (msg_orphaned ''T''))
   \<and> validatePipelineStructure
         [exNode ''L'' ''dataLoader'' [], exNode ''C'' ''classifier'' [], exNode ''S'' ''dataSplit'' []]
         gateConns
       = Inl (PipelineValidationError (msg_model_inputs ''C''))
   \<and> exNode ''C'' ''classifier'' [] \<notin> set (orphanedNodes (exNode ''L'' ''dataLoader'' [] # gateNodes) gateConns)"
proof -
  let ?L = "exNode ''L'' ''dataLoader'' []" and ?T = "exNode ''T'' ''scaler'' []"
    and ?C = "exNode ''C'' ''classifier'' []" and ?S = "exNode ''S'' ''dataSplit'' []"
  have h1: "\<not> hasDataLoader gateNodes"
    by (simp add: hasDataLoader_def gateNodes_def exNode_def)
  have h2: "hasDataLoader (?L # gateNodes) \<and> orphanedNodes (?L # gateNodes) gateConns \<noteq> []"
    by (simp add: hasDataLoader_def gateNodes_def gateConns_def exNode_def exConn_def
        orphanedNodes_def connectedNodes_def)
  have o2: "orphanedNodes (?L # gateNodes) gateConns = [?T]"
    by (simp add: gateNodes_def gateConns_def exNode_def exConn_def
        orphanedNodes_def connectedNodes_def)
  have h3: "hasDataLoader [?L, ?C, ?S] \<and> orphanedNodes [?L, ?C, ?S] gateConns = []"
    by (simp add: hasDataLoader_def gateConns_def exNode_def exConn_def
        orphanedNodes_def connectedNodes_def)
  have h4: "[?L, ?C, ?S] = [?L] @ ?C # [?S]
            \<and> (\<forall>m \<in> set [?L]. requiredInputViolation m gateConns = None)
            \<and> requiredInputViolation ?C gateConns
                = Some (PipelineValidationError (msg_model_inputs ''C''))"
    by (simp add: requiredInputViolation_def gateConns_def exNode_def exConn_def)
  have h5: "\<exists>c \<in> set gateConns. target c = node_id ?C"
    by (simp add: gateConns_def exNode_def exConn_def)
  from validate_order [of gateNodes gateConns] h1
  have r1: "validatePipelineStructure gateNodes gateConns
              = Inl (PipelineValidationError msg_no_dataLoader)" by blast
  from validate_order [of "?L # gateNodes" gateConns _ ?C] h2 h5
  have r2: "validatePipelineStructure (?L # gateNodes) gateConns
              = Inl (PipelineValidationError
                      (msg_orphaned (join '', '' (map label (orphanedNodes (?L # gateNodes) gateConns)))))"
    and r4: "?C \<notin> set (orphanedNodes (?L # gateNodes) gateConns)"
    by blast+
  note i3 = validate_order [of "[?L, ?C, ?S]" gateConns "[?L]" ?C "[?S]"
      "PipelineValidationError (msg_model_inputs ''C'')"]
  have r3a: "validatePipelineStructure [?L, ?C, ?S] gateConns
               = checkRequiredInputs [?L, ?C, ?S] gateConns"
    using i3 [THEN conjunct2, THEN conjunct2, THEN conjunct1] h3 by (rule mp)
  have r3b: "checkRequiredInputs [?L, ?C, ?S] gateConns
               = Inl (PipelineValidationError (msg_model_inputs ''C''))"
    using i3 [THEN conjunct2, THEN conjunct2, THEN conjunct2, THEN conjunct2, THEN conjunct1] h4
    by (rule mp)
  from r3a r3b
  have r3: "validatePipelineStructure [?L, ?C, ?S] gateConns
              = Inl (PipelineValidationError (msg_model_inputs ''C''))"
    by (rule trans)
  from r2 o2 have r2': "validatePipelineStructure (?L # gateNodes) gateConns
              = Inl (PipelineValidationError (msg_orphaned ''T''))"
    by (simp add: exNode_def)
  from r1 r2' r3 r4 show ?thesis by blast
qed

section \<open>The metric set of the evaluate node (C6)\<close>




section \<open>The scaler fits on the training input only (C7)\<close>

text \<open>
  C7. A scaler whose \<open>X_test\<close> input is not connected emits the constructor, one
  \<open>fit_transform\<close> of the variable resolved for its \<open>X_train\<close> input and two prints, and
  no statement for a test variable; when \<open>X_test\<close> is connected too, the block fits on
  the \<open>X_train\<close> variable only and applies \<open>transform\<close>, not a fit, to the variable
  resolved for \<open>X_test\<close>.
\<close>

theorem scaler_fit_on_train_only:
  \<open>kind node = ''scaler'' \<longrightarrow>
     (findConn conns (node_id node) ''X_test'' = None \<longrightarrow>
        nodeToCode e node conns nodeMap varName varNameMap
          = (let method = toStr e (orElse (control node ''method'') (JStr ''StandardScaler''));
                 xTrainVar = getSourceOutputVar conns varNameMap (node_id node) ''X_train''
             in unlines
                 [''# Scale Features (Train only)'',
                  varName @ '' = '' @ method @ ''()'',
                  varName @ ''_X_train = '' @ varName @ ''.fit_transform('' @ xTrainVar @ '')'',
                  ''print("Features scaled using '' @ method @ ''")'',
                  ''print(f"Scaled train shape: {'' @ varName @ ''_X_train.shape}")'',
                  ''# Note: X_test not connected - only training data scaled'']))
     \<and> (findConn conns (node_id node) ''X_test'' = Some xc \<longrightarrow>
        nodeToCode e node conns nodeMap varName varNameMap
          = (let method = toStr e (orElse (control node ''method'') (JStr ''StandardScaler''));
                 xTrainVar = getSourceOutputVar conns varNameMap (node_id node) ''X_train'';
                 xTestVar = sourceVarNameOf varNameMap xc @ ''_'' @ sourceOutput xc
             in unlines
                 [''# Scale Features (Train and Test)'',
                  varName @ '' = '' @ method @ ''()'',
                  varName @ ''_X_train = '' @ varName @ ''.fit_transform('' @ xTrainVar @ '')'',
                  varName @ ''_X_test = '' @ varName @ ''.transform('' @ xTestVar @ '')'',
                  ''print("Features scaled using '' @ method @ ''")'',
                  ''print(f"Scaled train shape: {'' @ varName @ ''_X_train.shape}")'',
                  ''print(f"Scaled test shape: {'' @ varName @ ''_X_test.shape}")'']))\<close>
  by (simp add: nodeToCode_def nodeToCode_scaler_def getSourceOutputVar_def Let_def)

theorem scaler_fit_on_train_only_witness:
  \<open>kind (exNode ''Z'' ''scaler'' []) = ''scaler''
   \<and> findConn scalerTrainConns (node_id (exNode ''Z'' ''scaler'' [])) ''X_test'' = None
   \<and> statementLines (nodeToCode exEnv (exNode ''Z'' ''scaler'' []) scalerTrainConns [] ''scaler''
                        (Some [(''S'', ''split'')]))
       = [''scaler = StandardScaler()'',
          ''scaler_X_train = scaler.fit_transform(split_X_train)'',
          ''print("Features scaled using StandardScaler")'',
          ''print(f"Scaled train shape: {scaler_X_train.shape}")'']
   \<and> filter (sublist ''X_test'')
        (statementLines (nodeToCode exEnv (exNode ''Z'' ''scaler'' []) scalerTrainConns [] ''scaler''
                           (Some [(''S'', ''split'')]))) = []
   \<and> filter (sublist ''fit'')
        (statementLines (nodeToCode exEnv (exNode ''Z'' ''scaler'' []) scalerTrainConns [] ''scaler''
                           (Some [(''S'', ''split'')])))
       = [''scaler_X_train = scaler.fit_transform(split_X_train)'']
   \<and> findConn scalerBothConns (node_id (exNode ''Z'' ''scaler'' [])) ''X_test''
       = Some (exConn ''S'' ''X_test'' ''Z'' ''X_test'')
   \<and> statementLines (nodeToCode exEnv (exNode ''Z'' ''scaler'' []) scalerBothConns [] ''scaler''
                        (Some [(''S'', ''split'')]))
       = [''scaler = StandardScaler()'',
          ''scaler_X_train = scaler.fit_transform(split_X_train)'',
          ''scaler_X_test = scaler.transform(split_X_test)'',
          ''print("Features scaled using StandardScaler")'',
          ''print(f"Scaled train shape: {scaler_X_train.shape}")'',
          ''print(f"Scaled test shape: {scaler_X_test.shape}")'']
   \<and> filter (sublist ''fit'')
        (statementLines (nodeToCode exEnv (exNode ''Z'' ''scaler'' []) scalerBothConns [] ''scaler''
                           (Some [(''S'', ''split'')])))
       = [''scaler_X_train = scaler.fit_transform(split_X_train)'']
   \<and> filter (sublist ''(split_X_test)'')
        (statementLines (nodeToCode exEnv (exNode ''Z'' ''scaler'' []) scalerBothConns [] ''scaler''
                           (Some [(''S'', ''split'')])))
       = [''scaler_X_test = scaler.transform(split_X_test)'']\<close>
proof -
  let ?Z = "exNode ''Z'' ''scaler'' []"
  let ?vm = "Some [(''S'', ''split'')]"
  have k: "kind ?Z = ''scaler''" by (simp add: exNode_def)
  have f1: "findConn scalerTrainConns (node_id ?Z) ''X_test'' = None"
    by (simp add: findConn_def scalerTrainConns_def exNode_def exConn_def)
  have f2: "findConn scalerBothConns (node_id ?Z) ''X_test''
              = Some (exConn ''S'' ''X_test'' ''Z'' ''X_test'')"
    by (simp add: findConn_def scalerBothConns_def exNode_def exConn_def)
  note i1 = scaler_fit_on_train_only [where node = ?Z and conns = scalerTrainConns
      and e = exEnv and nodeMap = "[]" and varName = "''scaler''" and varNameMap = ?vm]
  note i2 = scaler_fit_on_train_only [where node = ?Z and conns = scalerBothConns
      and e = exEnv and nodeMap = "[]" and varName = "''scaler''" and varNameMap = ?vm
      and xc = "exConn ''S'' ''X_test'' ''Z'' ''X_test''"]
  from i1 [THEN mp, OF k, THEN conjunct1, THEN mp, OF f1]
  have b1: \<open>nodeToCode exEnv ?Z scalerTrainConns [] ''scaler'' ?vm
          = unlines
             [''# Scale Features (Train only)'',
              ''scaler = StandardScaler()'',
              ''scaler_X_train = scaler.fit_transform(split_X_train)'',
              ''print("Features scaled using StandardScaler")'',
              ''print(f"Scaled train shape: {scaler_X_train.shape}")'',
              ''# Note: X_test not connected - only training data scaled'']\<close>
    by (simp add: getSourceOutputVar_def findConn_def sourceVarNameOf_def scalerTrainConns_def
        exNode_def exConn_def control_def orElse_def Let_def)
  from i2 [THEN mp, OF k, THEN conjunct2, THEN mp, OF f2]
  have b2: \<open>nodeToCode exEnv ?Z scalerBothConns [] ''scaler'' ?vm
          = unlines
             [''# Scale Features (Train and Test)'',
              ''scaler = StandardScaler()'',
              ''scaler_X_train = scaler.fit_transform(split_X_train)'',
              ''scaler_X_test = scaler.transform(split_X_test)'',
              ''print("Features scaled using StandardScaler")'',
              ''print(f"Scaled train shape: {scaler_X_train.shape}")'',
              ''print(f"Scaled test shape: {scaler_X_test.shape}")'']\<close>
    by (simp add: getSourceOutputVar_def findConn_def sourceVarNameOf_def scalerBothConns_def
        exNode_def exConn_def control_def orElse_def Let_def)
  have s1: \<open>statementLines (nodeToCode exEnv ?Z scalerTrainConns [] ''scaler'' ?vm)
       = [''scaler = StandardScaler()'',
          ''scaler_X_train = scaler.fit_transform(split_X_train)'',
          ''print("Features scaled using StandardScaler")'',
          ''print(f"Scaled train shape: {scaler_X_train.shape}")'']\<close>
    unfolding b1 by (simp add: statementLines_def unlines_def nl_def isCommentLine_def)
  have s2: \<open>statementLines (nodeToCode exEnv ?Z scalerBothConns [] ''scaler'' ?vm)
       = [''scaler = StandardScaler()'',
          ''scaler_X_train = scaler.fit_transform(split_X_train)'',
          ''scaler_X_test = scaler.transform(split_X_test)'',
          ''print("Features scaled using StandardScaler")'',
          ''print(f"Scaled train shape: {scaler_X_train.shape}")'',
          ''print(f"Scaled test shape: {scaler_X_test.shape}")'']\<close>
    unfolding b2 by (simp add: statementLines_def unlines_def nl_def isCommentLine_def)
  have c1: \<open>filter (sublist ''X_test'')
       [''scaler = StandardScaler()'',
        ''scaler_X_train = scaler.fit_transform(split_X_train)'',
        ''print("Features scaled using StandardScaler")'',
        ''print(f"Scaled train shape: {scaler_X_train.shape}")''] = []\<close>
    by code_simp
  have c2: \<open>filter (sublist ''fit'')
       [''scaler = StandardScaler()'',
        ''scaler_X_train = scaler.fit_transform(split_X_train)'',
        ''print("Features scaled using StandardScaler")'',
        ''print(f"Scaled train shape: {scaler_X_train.shape}")'']
     = [''scaler_X_train = scaler.fit_transform(split_X_train)'']\<close>
    by code_simp
  have c3: \<open>filter (sublist ''fit'')
       [''scaler = StandardScaler()'',
        ''scaler_X_train = scaler.fit_transform(split_X_train)'',
        ''scaler_X_test = scaler.transform(split_X_test)'',
        ''print("Features scaled using StandardScaler")'',
        ''print(f"Scaled train shape: {scaler_X_train.shape}")'',
        ''print(f"Scaled test shape: {scaler_X_test.shape}")'']
     = [''scaler_X_train = scaler.fit_transform(split_X_train)'']\<close>
    by code_simp
  have c4: \<open>filter (sublist ''(split_X_test)'')
       [''scaler = StandardScaler()'',
        ''scaler_X_train = scaler.fit_transform(split_X_train)'',
        ''scaler_X_test = scaler.transform(split_X_test)'',
        ''print("Features scaled using StandardScaler")'',
        ''print(f"Scaled train shape: {scaler_X_train.shape}")'',
        ''print(f"Scaled test shape: {scaler_X_test.shape}")'']
     = [''scaler_X_test = scaler.transform(split_X_test)'']\<close>
    by code_simp
  show ?thesis
    unfolding s1 s2 c1 c2 c3 c4 using k f1 f2 by (intro conjI refl)
qed

section \<open>Variable names (C8)\<close>

text \<open>
  C8. Each scheduled node gets the short name of its kind plus a per-kind counter, and the
  names are meant to be pairwise distinct. The counter is kept per kind while \<open>kindMap\<close> gives
  the kinds \<open>classifier\<close> and \<open>regressor\<close> the same short name (and every kind missing from
  the table, such as \<open>evaluate\<close>, \<open>predict\<close> and \<open>hyperparamTune\<close>, the name \<open>step\<close>):
  on a valid pipeline with one classifier and one regressor, both are named \<open>model\<close>.
\<close>

theorem varNames_collide_on_trainersGraph:
  "validatePipelineStructure (mlNodesOf trainersGraph) (connections trainersGraph) = Inr ()
   \<and> map node_id (topologicalSort (mlNodesOf trainersGraph) (connections trainersGraph))
       = [''L'', ''S'', ''C'', ''R'']
   \<and> assignVarNames (topologicalSort (mlNodesOf trainersGraph) (connections trainersGraph))
       = [(''L'', ''data''), (''S'', ''split''), (''C'', ''model''), (''R'', ''model'')]"
proof -
  have v: "validatePipelineStructure (mlNodesOf trainersGraph) (connections trainersGraph) = Inr ()"
    by (simp add: trainersGraph_def example_defs validate_eval)
  have t: "topologicalSort (mlNodesOf trainersGraph) (connections trainersGraph)
             = [exNode ''L'' ''dataLoader'' [], exNode ''S'' ''dataSplit'' [],
                exNode ''C'' ''classifier'' [], exNode ''R'' ''regressor'' []]"
    by (simp add: trainersGraph_def example_defs topo_eval)
  have a: "assignVarNames [exNode ''L'' ''dataLoader'' [], exNode ''S'' ''dataSplit'' [],
                           exNode ''C'' ''classifier'' [], exNode ''R'' ''regressor'' []]
             = [(''L'', ''data''), (''S'', ''split''), (''C'', ''model''), (''R'', ''model'')]"
    by (simp add: exNode_def assignVarNames_def assignVarName_def getSimpleVarName_def kindMap_def)
  show ?thesis using v t a by (simp add: exNode_def)
qed

section \<open>The exporters format the generated code (C9)\<close>

text \<open>
  C9. \<open>generatePythonScript\<close> and \<open>generateJupyterNotebook\<close> depend on the graph only
  through the result of \<open>generatePythonCode\<close>: two graphs with the same result export the
  same script and the same notebook; an error of \<open>generatePythonCode\<close> is passed on
  unchanged; and on success the script is the header, made of the name and the time of
  generation, followed by the code, and the notebook is the serialisation of the cells
  built from the name, the time and the code. Nothing else is validated or scheduled.
\<close>

theorem exporters_format_generated_code:
  "(generatePythonCode e g1 = generatePythonCode e g2 \<longrightarrow>
      generatePythonScript e g1 name = generatePythonScript e g2 name
      \<and> generateJupyterNotebook e g1 name = generateJupyterNotebook e g2 name)
   \<and> (generatePythonCode e g = Inl err \<longrightarrow>
        generatePythonScript e g name = Inl err \<and> generateJupyterNotebook e g name = Inl err)
   \<and> (generatePythonCode e g = Inr code \<longrightarrow>
        generatePythonScript e g name = Inr (scriptHeader e name @ code)
        \<and> generateJupyterNotebook e g name = Inr (stringify e (notebookOf e name code)))"
  by (simp add: generatePythonScript_def generateJupyterNotebook_def)

theorem exporters_format_generated_code_witness:
  "trainersGraph \<noteq> annotatedTrainersGraph
   \<and> generatePythonCode exEnv trainersGraph = generatePythonCode exEnv annotatedTrainersGraph
   \<and> generatePythonScript exEnv trainersGraph ''P''
       = generatePythonScript exEnv annotatedTrainersGraph ''P''
   \<and> generateJupyterNotebook exEnv trainersGraph ''P''
       = generateJupyterNotebook exEnv annotatedTrainersGraph ''P''
   \<and> generatePythonScript exEnv noLoaderGraph ''P''
       = Inl (PipelineValidationError msg_no_dataLoader)
   \<and> generateJupyterNotebook exEnv noLoaderGraph ''P''
       = Inl (PipelineValidationError msg_no_dataLoader)
   \<and> generatePythonScript exEnv trainersGraph ''P''
       = Inr (scriptHeader exEnv ''P''
              @ compileValidated exEnv (mlNodesOf trainersGraph) (connections trainersGraph))
   \<and> generateJupyterNotebook exEnv trainersGraph ''P''
       = Inr (stringify exEnv (notebookOf exEnv ''P''
               (compileValidated exEnv (mlNodesOf trainersGraph) (connections trainersGraph))))"
proof -
  let ?code = "compileValidated exEnv (mlNodesOf trainersGraph) (connections trainersGraph)"
  let ?err = "PipelineValidationError msg_no_dataLoader"
  have ne: "trainersGraph \<noteq> annotatedTrainersGraph"
  proof
    assume "trainersGraph = annotatedTrainersGraph"
    then have "length (nodes trainersGraph) = length (nodes annotatedTrainersGraph)" by simp
    then show False by (simp add: annotatedTrainersGraph_def)
  qed
  have ml: "mlNodesOf annotatedTrainersGraph = mlNodesOf trainersGraph"
    by (simp add: annotatedTrainersGraph_def trainersGraph_def example_defs)
  have cn: "connections annotatedTrainersGraph = connections trainersGraph"
    by (simp add: annotatedTrainersGraph_def)
  have v: "validatePipelineStructure (mlNodesOf trainersGraph) (connections trainersGraph) = Inr ()"
    by (simp add: trainersGraph_def example_defs validate_eval)
  have g1: "generatePythonCode exEnv trainersGraph = Inr ?code"
    unfolding generatePythonCode_def Let_def using v
    by (simp add: trainersGraph_def example_defs)
  have g2: "generatePythonCode exEnv annotatedTrainersGraph = Inr ?code"
    unfolding generatePythonCode_def Let_def ml cn using v
    by (simp add: annotatedTrainersGraph_def trainersGraph_def example_defs)
  have g3: "generatePythonCode exEnv noLoaderGraph = Inl ?err"
    by (simp add: generatePythonCode_def noLoaderGraph_def example_defs validate_eval)
  have eq: "generatePythonCode exEnv trainersGraph
              = generatePythonCode exEnv annotatedTrainersGraph"
    using g1 g2 by simp
  note i1 = exporters_format_generated_code
              [of exEnv trainersGraph annotatedTrainersGraph "''P''" noLoaderGraph ?err ?code]
  note i2 = exporters_format_generated_code
              [of exEnv trainersGraph annotatedTrainersGraph "''P''" trainersGraph ?err ?code]
  have a: "generatePythonScript exEnv trainersGraph ''P''
             = generatePythonScript exEnv annotatedTrainersGraph ''P''
           \<and> generateJupyterNotebook exEnv trainersGraph ''P''
             = generateJupyterNotebook exEnv annotatedTrainersGraph ''P''"
    using i1 [THEN conjunct1] eq by (rule mp)
  have b: "generatePythonScript exEnv noLoaderGraph ''P'' = Inl ?err
           \<and> generateJupyterNotebook exEnv noLoaderGraph ''P'' = Inl ?err"
    using i1 [THEN conjunct2, THEN conjunct1] g3 by (rule mp)
  have c: "generatePythonScript exEnv trainersGraph ''P'' = Inr (scriptHeader exEnv ''P'' @ ?code)
           \<and> generateJupyterNotebook exEnv trainersGraph ''P''
             = Inr (stringify exEnv (notebookOf exEnv ''P'' ?code))"
    using i2 [THEN conjunct2, THEN conjunct2] g1 by (rule mp)
  from a have a1: "generatePythonScript exEnv trainersGraph ''P''
                     = generatePythonScript exEnv annotatedTrainersGraph ''P''"
    by (rule conjunct1)
  from a have a2: "generateJupyterNotebook exEnv trainersGraph ''P''
                     = generateJupyterNotebook exEnv annotatedTrainersGraph ''P''"
    by (rule conjunct2)
  from b have b1: "generatePythonScript exEnv noLoaderGraph ''P'' = Inl ?err"
    by (rule conjunct1)
  from b have b2: "generateJupyterNotebook exEnv noLoaderGraph ''P'' = Inl ?err"
    by (rule conjunct2)
  from c have c1: "generatePythonScript exEnv trainersGraph ''P''
                     = Inr (scriptHeader exEnv ''P'' @ ?code)"
    by (rule conjunct1)
  from c have c2: "generateJupyterNotebook exEnv trainersGraph ''P''
                     = Inr (stringify exEnv (notebookOf exEnv ''P'' ?code))"
    by (rule conjunct2)
  from ne eq a1 a2 b1 b2 c1 c2 show ?thesis by (intro conjI)
qed

section \<open>Falsy control values of the dataSplit node (C10)\<close>

text \<open>
  C10. For a dataSplit node a falsy control value is the same as an absent one. When the
  \<open>ratio\<close> control is missing, 0 or the empty string, the block is the one of the ratio
  0.8: its call of \<open>train_test_split\<close> has \<open>test_size=0.20\<close>, where the ratio 0 itself
  would have given \<open>1.00\<close>. When the \<open>targetColumn\<close> control is missing, the empty string
  or 0, the block names the column \<open>target\<close>. With both, the whole block is fixed up to
  the variable of the source data.
\<close>

theorem dataSplit_falsy_control_is_default:
  \<open>kind node = ''dataSplit'' \<longrightarrow>
     (control node ''ratio'' \<in> {JUndefined, JNum 0, JStr []} \<longrightarrow>
        nodeToCode e node conns nodeMap varName varNameMap
          = (let targetColumn = toStr e (orElse (control node ''targetColumn'') (JStr ''target''));
                 sourceVar = getSourceVarName conns varNameMap (node_id node) ''data''
             in unlines
                 [''# Train/Test Split'',
                  ''# Target column: '' @ sq @ targetColumn @ sq,
                  ''X_all = '' @ sourceVar @ ''.drop('' @ sq @ targetColumn @ sq @ '', axis=1)'',
                  ''y_all = '' @ sourceVar @ ''['' @ sq @ targetColumn @ sq @ '']'',
                  varName @ ''_X_train, '' @ varName @ ''_X_test, '' @ varName @ ''_y_train, ''
                    @ varName @ ''_y_test = train_test_split('',
                  ''    X_all, y_all, test_size=0.20, random_state=42'',
                  '')'',
                  ''print(f"Train size: {{len('' @ varName @ ''_X_train)}}, Test size: {{len(''
                    @ varName @ ''_X_test)}}")'',
                  ''print(f"Target column: '' @ sq @ targetColumn @ sq @ ''")'']))
     \<and> (control node ''targetColumn'' \<in> {JUndefined, JNum 0, JStr []} \<longrightarrow>
        nodeToCode e node conns nodeMap varName varNameMap
          = (let sourceVar = getSourceVarName conns varNameMap (node_id node) ''data''
             in unlines
                 [''# Train/Test Split'',
                  ''# Target column: '' @ sq @ ''target'' @ sq,
                  ''X_all = '' @ sourceVar @ ''.drop('' @ sq @ ''target'' @ sq @ '', axis=1)'',
                  ''y_all = '' @ sourceVar @ ''['' @ sq @ ''target'' @ sq @ '']'',
                  varName @ ''_X_train, '' @ varName @ ''_X_test, '' @ varName @ ''_y_train, ''
                    @ varName @ ''_y_test = train_test_split('',
                  ''    X_all, y_all, test_size='' @ dataSplitTestSize e node
                    @ '', random_state=42'',
                  '')'',
                  ''print(f"Train size: {{len('' @ varName @ ''_X_train)}}, Test size: {{len(''
                    @ varName @ ''_X_test)}}")'',
                  ''print(f"Target column: '' @ sq @ ''target'' @ sq @ ''")'']))
     \<and> (control node ''ratio'' \<in> {JUndefined, JNum 0, JStr []}
        \<and> control node ''targetColumn'' \<in> {JUndefined, JNum 0, JStr []} \<longrightarrow>
        nodeToCode e node conns nodeMap varName varNameMap
          = (let sourceVar = getSourceVarName conns varNameMap (node_id node) ''data''
             in unlines
                 [''# Train/Test Split'',
                  ''# Target column: '' @ sq @ ''target'' @ sq,
                  ''X_all = '' @ sourceVar @ ''.drop('' @ sq @ ''target'' @ sq @ '', axis=1)'',
                  ''y_all = '' @ sourceVar @ ''['' @ sq @ ''target'' @ sq @ '']'',
                  varName @ ''_X_train, '' @ varName @ ''_X_test, '' @ varName @ ''_y_train, ''
                    @ varName @ ''_y_test = train_test_split('',
                  ''    X_all, y_all, test_size=0.20, random_state=42'',
                  '')'',
                  ''print(f"Train size: {{len('' @ varName @ ''_X_train)}}, Test size: {{len(''
                    @ varName @ ''_X_test)}}")'',
                  ''print(f"Target column: '' @ sq @ ''target'' @ sq @ ''")'']))
     \<and> toFixed2 e (map_option (\<lambda>r. double (1 - r)) (toNumber e (JNum 0))) = ''1.00''\<close>
proof -
  have fr: "\<not> truthy (control node ''ratio'')"
    if "control node ''ratio'' \<in> {JUndefined, JNum 0, JStr []}"
    using that by (auto simp: double_zero)
  have size: "dataSplitTestSize e node = ''0.20''"
    if "control node ''ratio'' \<in> {JUndefined, JNum 0, JStr []}"
    using dataSplitTestSize_default [OF fr [OF that]] .
  have ft: "orElse (control node ''targetColumn'') (JStr ''target'') = JStr ''target''"
    if "control node ''targetColumn'' \<in> {JUndefined, JNum 0, JStr []}"
    using that by (auto simp: orElse_def double_zero)
  have one: "toFixed2 e (map_option (\<lambda>r. double (1 - r)) (toNumber e (JNum 0))) = ''1.00''"
    using testSize_of_zero [of e] by (simp add: double_zero)
  show ?thesis
    using one size ft
    by (simp add: nodeToCode_def nodeToCode_dataSplit_def Let_def del: toNumber.simps)
qed

theorem dataSplit_falsy_control_is_default_witness:
  \<open>nodeToCode exEnv (exNode ''S'' ''dataSplit'' [(''ratio'', JNum 0), (''targetColumn'', JStr [])])
       [exConn ''L'' ''data'' ''S'' ''data''] [] ''split'' (Some [(''L'', ''data'')])
     = unlines
        [''# Train/Test Split'',
         ''# Target column: '' @ sq @ ''target'' @ sq,
         ''X_all = data.drop('' @ sq @ ''target'' @ sq @ '', axis=1)'',
         ''y_all = data['' @ sq @ ''target'' @ sq @ '']'',
         ''split_X_train, split_X_test, split_y_train, split_y_test = train_test_split('',
         ''    X_all, y_all, test_size=0.20, random_state=42'',
         '')'',
         ''print(f"Train size: {{len(split_X_train)}}, Test size: {{len(split_X_test)}}")'',
         ''print(f"Target column: '' @ sq @ ''target'' @ sq @ ''")'']
   \<and> nodeToCode exEnv (exNode ''S'' ''dataSplit'' [])
       [exConn ''L'' ''data'' ''S'' ''data''] [] ''split'' (Some [(''L'', ''data'')])
     = nodeToCode exEnv
         (exNode ''S'' ''dataSplit'' [(''ratio'', JNum 0), (''targetColumn'', JStr [])])
         [exConn ''L'' ''data'' ''S'' ''data''] [] ''split'' (Some [(''L'', ''data'')])
   \<and> sublist ''test_size=0.20''
        (nodeToCode exEnv
           (exNode ''S'' ''dataSplit'' [(''ratio'', JNum 0), (''targetColumn'', JStr [])])
           [exConn ''L'' ''data'' ''S'' ''data''] [] ''split'' (Some [(''L'', ''data'')]))
   \<and> \<not> sublist ''test_size=1.00''
        (nodeToCode exEnv
           (exNode ''S'' ''dataSplit'' [(''ratio'', JNum 0), (''targetColumn'', JStr [])])
           [exConn ''L'' ''data'' ''S'' ''data''] [] ''split'' (Some [(''L'', ''data'')]))\<close>
proof -
  let ?n = "exNode ''S'' ''dataSplit'' [(''ratio'', JNum 0), (''targetColumn'', JStr [])]"
  let ?m = "exNode ''S'' ''dataSplit'' []"
  let ?cs = "[exConn ''L'' ''data'' ''S'' ''data'']"
  let ?vm = "Some [(''L'', ''data'')]"
  let ?block = \<open>unlines
        [''# Train/Test Split'',
         ''# Target column: '' @ sq @ ''target'' @ sq,
         ''X_all = data.drop('' @ sq @ ''target'' @ sq @ '', axis=1)'',
         ''y_all = data['' @ sq @ ''target'' @ sq @ '']'',
         ''split_X_train, split_X_test, split_y_train, split_y_test = train_test_split('',
         ''    X_all, y_all, test_size=0.20, random_state=42'',
         '')'',
         ''print(f"Train size: {{len(split_X_train)}}, Test size: {{len(split_X_test)}}")'',
         ''print(f"Target column: '' @ sq @ ''target'' @ sq @ ''")'']\<close>
  have kn: "kind ?n = ''dataSplit''" and km: "kind ?m = ''dataSplit''"
    by (simp_all add: exNode_def)
  have hn: "control ?n ''ratio'' \<in> {JUndefined, JNum 0, JStr []}
            \<and> control ?n ''targetColumn'' \<in> {JUndefined, JNum 0, JStr []}"
    by (simp add: control_def exNode_def)
  have hm: "control ?m ''ratio'' \<in> {JUndefined, JNum 0, JStr []}
            \<and> control ?m ''targetColumn'' \<in> {JUndefined, JNum 0, JStr []}"
    by (simp add: control_def exNode_def)
  have sn: "getSourceVarName ?cs ?vm (node_id ?n) ''data'' = ''data''"
    by (simp add: getSourceVarName_def findConn_def sourceVarNameOf_def exNode_def exConn_def)
  have sm: "getSourceVarName ?cs ?vm (node_id ?m) ''data'' = ''data''"
    by (simp add: getSourceVarName_def findConn_def sourceVarNameOf_def exNode_def exConn_def)
  note i1 = dataSplit_falsy_control_is_default
              [of ?n exEnv ?cs "[]" "''split''" ?vm, THEN mp, OF kn]
  note i2 = dataSplit_falsy_control_is_default
              [of ?m exEnv ?cs "[]" "''split''" ?vm, THEN mp, OF km]
  have bn: "nodeToCode exEnv ?n ?cs [] ''split'' ?vm = ?block"
    using i1 [THEN conjunct2, THEN conjunct2, THEN conjunct1, THEN mp, OF hn]
    unfolding Let_def sn by simp
  have bm: "nodeToCode exEnv ?m ?cs [] ''split'' ?vm = ?block"
    using i2 [THEN conjunct2, THEN conjunct2, THEN conjunct1, THEN mp, OF hm]
    unfolding Let_def sm by simp
  have s1: "sublist ''test_size=0.20'' ?block" by code_simp
  have s2: "\<not> sublist ''test_size=1.00'' ?block" by code_simp
  from bn bm s1 s2 show ?thesis by simp
qed

end
